theory Spec2Isabelle
  imports Main "HOL-Library.Product_Lexorder" "HOL-Library.List_Lexorder" "HOL-Library.Char_ord"
begin

section \<open>Data model (booking/models.py)\<close>

text \<open>
  Timestamps are aware datetimes in UTC (settings: \<open>TIME_ZONE = 'UTC'\<close>, \<open>USE_TZ = True\<close>).
  A datetime is modelled as an integer number of minutes since the epoch, a timedelta as
  an integer number of minutes, a calendar date as the number of the day and a time of
  day as the minute within the day. \<open>date_of\<close> is \<open>datetime.date()\<close>, \<open>time_of\<close> is
  \<open>datetime.time()\<close> and \<open>combine\<close> is
  \<open>timezone.make_aware(datetime.combine(date, time))\<close>.
\<close>

type_synonym datetime = int
type_synonym timedelta = int

definition date_of :: "datetime \<Rightarrow> int" where
  "date_of t = t div 1440"

definition time_of :: "datetime \<Rightarrow> int" where
  "time_of t = t mod 1440"

definition combine :: "int \<Rightarrow> int \<Rightarrow> datetime" where
  "combine d tod = d * 1440 + tod"

text \<open>\<open>Appointment.APPOINTMENT_STATUS\<close>: the five choices of the status field.\<close>

datatype status = PENDING | CONFIRMED | IN_PROGRESS | COMPLETED | CANCELLED

text \<open>
  \<open>Service\<close>: the fields the booking code reads. A price is a decimal with two places,
  held as an integer number of hundredths.
\<close>

record service =
  service_id :: nat
  service_name :: string
  duration :: timedelta
  price :: int

text \<open>\<open>Schedule\<close>: one working interval of a staff member on a date.\<close>

record schedule =
  schedule_business :: nat
  schedule_staff :: nat
  schedule_date :: int
  schedule_start_time :: int
  schedule_end_time :: int

text \<open>\<open>Appointment\<close> (the timestamps \<open>created_at\<close>, \<open>updated_at\<close> are left out).\<close>

record appointment =
  appointment_id :: nat
  appointment_business :: nat
  client_name :: string
  client_phone :: string
  status :: status
  appointment_notes :: "string option"
  total_price :: int

text \<open>
  \<open>AppointmentService\<close>: one booked (service, staff, time range) of an appointment.
  \<open>as_appointment\<close> is the foreign key \<open>appointment_id\<close>; \<open>as_service\<close> is the
  referenced \<open>Service\<close> object (services are not changed by the modelled operations).
\<close>

record appointment_service =
  as_id :: nat
  as_appointment :: nat
  as_service :: service
  as_staff :: nat
  start_time :: datetime
  end_time :: datetime
  as_price :: int

text \<open>
  The database: each table is the list of its rows in primary-key order, with the next
  value of the two auto-increment keys.
\<close>

record db =
  schedules :: "schedule list"
  appointments :: "appointment list"
  appointment_services :: "appointment_service list"
  next_appointment_id :: nat
  next_as_id :: nat

text \<open>
  The rejections of the booking code, named by the error kinds of the specification:
  \<^item> \<open>PAST_DATE\<close>: "Cannot book appointments in the past" (validator and \<open>clean\<close>);
  \<^item> \<open>INVALID_RANGE\<close>: "End time must be after start time" (\<open>AppointmentService.clean\<close>);
  \<^item> \<open>OUTSIDE_HOURS\<close>: "Selected time is outside of staff working hours";
  \<^item> \<open>DOUBLE_BOOKING\<close>: "Time slot conflicts with existing appointment" (validator);
  \<^item> \<open>STAFF_UNAVAILABLE\<close>: "The selected staff member is not available during this
    time slot" (\<open>AppointmentService.clean\<close>), and the \<open>StaffUnavailableError\<close> of the
    reschedule view;
  \<^item> \<open>TERMINAL_STATE\<close>: "Cannot modify completed appointments", "Cannot reschedule
    completed or cancelled appointments", and the \<open>CancellationError\<close> of the cancel view;
  \<^item> \<open>NO_SERVICES\<close>: the \<open>AttributeError\<close> of \<open>appointment.services.first().service\<close>
    when the appointment has no service row;
  \<^item> \<open>NOT_FOUND\<close>: "Appointment not found." (\<open>AppointmentRescheduleSerializer\<close>);
  \<^item> \<open>INDEX_ERROR\<close>: the \<open>IndexError\<close> of \<open>services[0]\<close> in the reschedule view when the
    appointment has no service row;
  \<^item> \<open>IMPORT_ERROR\<close>: the \<open>ImportError\<close> of
    \<open>from .utils import send_appointment_notification\<close> in the views.
\<close>

datatype error =
    PAST_DATE
  | INVALID_RANGE
  | OUTSIDE_HOURS
  | DOUBLE_BOOKING
  | STAFF_UNAVAILABLE
  | TERMINAL_STATE
  | NO_SERVICES
  | NOT_FOUND
  | INDEX_ERROR
  | IMPORT_ERROR

section \<open>Queries\<close>

text \<open>The join \<open>appointment__status\<close>: the status of the parent appointment of a row.\<close>

definition appointment_status :: "db \<Rightarrow> nat \<Rightarrow> status option" where
  "appointment_status d aid =
     map_option status (find (\<lambda>a. appointment_id a = aid) (appointments d))"

text \<open>\<open>appointment__status__in=['PENDING', 'CONFIRMED', 'IN_PROGRESS']\<close>.\<close>

definition is_active :: "db \<Rightarrow> appointment_service \<Rightarrow> bool" where
  "is_active d r =
     (appointment_status d (as_appointment r) \<in> {Some PENDING, Some CONFIRMED, Some IN_PROGRESS})"

text \<open>
  \<open>appointment.services.all()\<close>: the rows of an appointment in the model's default
  ordering (\<open>Meta.ordering = ['start_time']\<close>), and \<open>.first()\<close> of a queryset.
\<close>

definition services_of :: "db \<Rightarrow> nat \<Rightarrow> appointment_service list" where
  "services_of d aid =
     sort_key start_time (filter (\<lambda>r. as_appointment r = aid) (appointment_services d))"

definition first :: "'a list \<Rightarrow> 'a option" where
  "first xs = (case xs of [] \<Rightarrow> None | x # _ \<Rightarrow> Some x)"

section \<open>Model hooks\<close>

text \<open>\<open>Appointment.calculate_total_price\<close>.\<close>

definition calculate_total_price :: "db \<Rightarrow> nat \<Rightarrow> int" where
  "calculate_total_price d aid = sum_list (map as_price (services_of d aid))"

text \<open>
  \<open>Appointment.save\<close> of an appointment that has a primary key: the total price is
  recomputed from the rows of the database, then the row is updated (inserted when no row
  has this key).
\<close>

definition Appointment_save :: "db \<Rightarrow> appointment \<Rightarrow> db \<times> appointment" where
  "Appointment_save d a =
     (let a' = a\<lparr>total_price := calculate_total_price d (appointment_id a)\<rparr> in
      if list_ex (\<lambda>x. appointment_id x = appointment_id a) (appointments d)
      then (d\<lparr>appointments :=
                map (\<lambda>x. if appointment_id x = appointment_id a then a' else x) (appointments d)\<rparr>, a')
      else (d\<lparr>appointments := appointments d @ [a']\<rparr>, a'))"

text \<open>
  \<open>Appointment.objects.create\<close>: \<open>save\<close> runs on an instance without a primary key, whose
  \<open>services\<close> relation is empty, so the total price is the empty sum; the row is then
  inserted under the next key. (This is the behaviour of the Django releases in which the
  related manager of an unsaved instance gives the empty queryset; the repository does
  not pin a release.)
\<close>

definition Appointment_create ::
  "db \<Rightarrow> nat \<Rightarrow> string \<Rightarrow> string \<Rightarrow> status \<Rightarrow> string option \<Rightarrow> db \<times> appointment" where
  "Appointment_create d business cname cphone st nts =
     (let a = \<lparr>appointment_id = next_appointment_id d, appointment_business = business,
                client_name = cname, client_phone = cphone, status = st, appointment_notes = nts,
                total_price = sum_list []\<rparr>
      in (d\<lparr>appointments := appointments d @ [a],
             next_appointment_id := Suc (next_appointment_id d)\<rparr>, a))"

text \<open>
  \<open>AppointmentService.clean\<close>, for a row with the given primary key (\<open>None\<close> before the
  first save: \<open>exclude(pk=None)\<close> excludes nothing). The availability query has no filter
  on the status of the parent appointment.
\<close>

definition AppointmentService_clean ::
  "datetime \<Rightarrow> db \<Rightarrow> nat option \<Rightarrow> nat \<Rightarrow> datetime \<Rightarrow> datetime \<Rightarrow> error option" where
  "AppointmentService_clean now d pk staff start_t end_t =
     (if start_t \<ge> end_t then Some INVALID_RANGE
      else if start_t < now then Some PAST_DATE
      else
        let staff_appointments =
              filter (\<lambda>r. as_staff r = staff \<and> start_time r < end_t \<and> end_time r > start_t
                          \<and> (case pk of None \<Rightarrow> True | Some k \<Rightarrow> as_id r \<noteq> k))
                     (appointment_services d)
        in if staff_appointments \<noteq> [] then Some STAFF_UNAVAILABLE else None)"

text \<open>\<open>AppointmentService.objects.create\<close>: \<open>clean\<close>, then insert under the next key.\<close>

definition AppointmentService_create ::
  "datetime \<Rightarrow> db \<Rightarrow> nat \<Rightarrow> service \<Rightarrow> nat \<Rightarrow> datetime \<Rightarrow> datetime \<Rightarrow> int \<Rightarrow> error + db" where
  "AppointmentService_create now d aid sv staff start_t end_t p =
     (case AppointmentService_clean now d None staff start_t end_t of
        Some e \<Rightarrow> Inl e
      | None \<Rightarrow>
          Inr (d\<lparr>appointment_services := appointment_services d @
                   [\<lparr>as_id = next_as_id d, as_appointment = aid, as_service = sv,
                     as_staff = staff, start_time = start_t, end_time = end_t, as_price = p\<rparr>],
                 next_as_id := Suc (next_as_id d)\<rparr>))"

text \<open>
  \<open>AppointmentService.save\<close> of a row that has a primary key: \<open>clean\<close>, then update the
  row (insert it when no row has this key).
\<close>

definition AppointmentService_save :: "datetime \<Rightarrow> db \<Rightarrow> appointment_service \<Rightarrow> error + db" where
  "AppointmentService_save now d r =
     (case AppointmentService_clean now d (Some (as_id r)) (as_staff r) (start_time r) (end_time r) of
        Some e \<Rightarrow> Inl e
      | None \<Rightarrow>
          if list_ex (\<lambda>x. as_id x = as_id r) (appointment_services d)
          then Inr (d\<lparr>appointment_services :=
                        map (\<lambda>x. if as_id x = as_id r then r else x) (appointment_services d)\<rparr>)
          else Inr (d\<lparr>appointment_services := appointment_services d @ [r]\<rparr>))"

section \<open>BookingManager (booking/services/booking\_manager.py)\<close>

text \<open>
  The two queries of \<open>validate_appointment_time\<close>: the schedule rows of the staff member
  on the date of the start that contain the proposed times of day (\<open>.first()\<close> of an
  unordered queryset takes the row with the least primary key), and the rows of the
  staff member under an active appointment that overlap the proposed interval.
\<close>

definition covering_schedules :: "db \<Rightarrow> nat \<Rightarrow> datetime \<Rightarrow> datetime \<Rightarrow> schedule list" where
  "covering_schedules d staff start_t end_t =
     filter (\<lambda>s. schedule_staff s = staff \<and> schedule_date s = date_of start_t
                 \<and> schedule_start_time s \<le> time_of start_t
                 \<and> schedule_end_time s \<ge> time_of end_t) (schedules d)"

definition active_overlapping :: "db \<Rightarrow> nat \<Rightarrow> datetime \<Rightarrow> datetime \<Rightarrow> appointment_service list" where
  "active_overlapping d staff start_t end_t =
     filter (\<lambda>r. as_staff r = staff \<and> start_time r < end_t \<and> end_time r > start_t
                 \<and> is_active d r) (appointment_services d)"

text \<open>
  \<open>if exclude_appointment_id: overlapping = overlapping.exclude(appointment_id=...)\<close>.
  The test is Python truthiness: \<open>None\<close> and \<open>0\<close> exclude nothing.
\<close>

definition exclude_appointment ::
  "nat option \<Rightarrow> appointment_service list \<Rightarrow> appointment_service list" where
  "exclude_appointment exclude_appointment_id overlapping =
     (case exclude_appointment_id of
        None \<Rightarrow> overlapping
      | Some aid \<Rightarrow>
          if aid \<noteq> 0 then filter (\<lambda>r. as_appointment r \<noteq> aid) overlapping else overlapping)"

text \<open>
  \<open>validate_appointment_time\<close>. The source returns a pair \<open>(bool, message)\<close>: \<open>None\<close>
  stands for \<open>(True, None)\<close> and \<open>Some e\<close> for \<open>(False, message of e)\<close>. The clock
  \<open>timezone.now()\<close> is the first argument.
\<close>

definition validate_appointment_time ::
  "datetime \<Rightarrow> db \<Rightarrow> nat \<Rightarrow> datetime \<Rightarrow> datetime \<Rightarrow> nat option \<Rightarrow> error option" where
  "validate_appointment_time now d staff start_t end_t exclude_appointment_id =
     (if start_t < now then Some PAST_DATE
      else if first (covering_schedules d staff start_t end_t) = None then Some OUTSIDE_HOURS
      else if exclude_appointment exclude_appointment_id
                (active_overlapping d staff start_t end_t) \<noteq> []
      then Some DOUBLE_BOOKING
      else None)"

text \<open>
  The operations return the database after the call together with the outcome, so that
  what a rejected call leaves behind is part of the result.

  \<open>create_appointment\<close> is \<open>@transaction.atomic\<close>: an exception rolls every write back.
  The appointment is saved once, before its service row exists.
\<close>

definition create_appointment ::
  "datetime \<Rightarrow> db \<Rightarrow> nat \<Rightarrow> nat \<Rightarrow> service \<Rightarrow> datetime \<Rightarrow> string \<Rightarrow> string \<Rightarrow> string option
     \<Rightarrow> db \<times> (error + appointment)" where
  "create_appointment now d business staff sv start_t cname cphone nts =
     (let end_t = start_t + duration sv in
      (case validate_appointment_time now d staff start_t end_t None of
         Some e \<Rightarrow> (d, Inl e)
       | None \<Rightarrow>
           (let (d1, a) = Appointment_create d business cname cphone PENDING nts in
            (case AppointmentService_create now d1 (appointment_id a) sv staff start_t end_t
                    (price sv) of
               Inl e \<Rightarrow> (d, Inl e)
             | Inr d2 \<Rightarrow> (d2, Inr a)))))"

text \<open>\<open>change_appointment_status\<close>: only a completed appointment is refused.\<close>

definition change_appointment_status ::
  "db \<Rightarrow> appointment \<Rightarrow> status \<Rightarrow> db \<times> (error + appointment)" where
  "change_appointment_status d a new_status =
     (if status a = COMPLETED then (d, Inl TERMINAL_STATE)
      else (let (d', a') = Appointment_save d (a\<lparr>status := new_status\<rparr>) in (d', Inr a')))"

text \<open>
  \<open>reschedule_appointment\<close>: the first service row of the appointment is validated
  (for the staff member passed in) and moved; no other row is written. The only write is
  the last step, after every check.
\<close>

definition reschedule_appointment ::
  "datetime \<Rightarrow> db \<Rightarrow> appointment \<Rightarrow> datetime \<Rightarrow> nat \<Rightarrow> db \<times> (error + appointment)" where
  "reschedule_appointment now d a new_start_time staff =
     (if status a = COMPLETED \<or> status a = CANCELLED then (d, Inl TERMINAL_STATE)
      else
        (case first (services_of d (appointment_id a)) of
           None \<Rightarrow> (d, Inl NO_SERVICES)
         | Some appointment_service \<Rightarrow>
             (let new_end_time = new_start_time + duration (as_service appointment_service) in
              (case validate_appointment_time now d staff new_start_time new_end_time
                      (Some (appointment_id a)) of
                 Some e \<Rightarrow> (d, Inl e)
               | None \<Rightarrow>
                   (case AppointmentService_save now d
                           (appointment_service\<lparr>start_time := new_start_time,
                                                 end_time := new_end_time\<rparr>) of
                      Inl e \<Rightarrow> (d, Inl e)
                    | Inr d' \<Rightarrow> (d', Inr a))))))"

text \<open>
  The slot loop shared by the three slot generators of the repository:
  \<^verbatim>\<open>
  while current_time + service.duration <= end_time:
      slot_end = current_time + service.duration
      if <available>: slots.append({start_time: current_time, end_time: slot_end})
      current_time += timedelta(minutes=30)
  \<close>
  The availability test of each generator is the first argument. A slot is its
  \<open>start_time\<close> and \<open>end_time\<close> (the \<open>formatted_time\<close> string is derived from them).
\<close>

function slots_loop ::
  "(datetime \<Rightarrow> datetime \<Rightarrow> bool) \<Rightarrow> timedelta \<Rightarrow> datetime \<Rightarrow> datetime
     \<Rightarrow> (datetime \<times> datetime) list" where
  "slots_loop is_available dur end_t current_time =
     (if current_time + dur \<le> end_t
      then (let slot_end = current_time + dur in
            (if is_available current_time slot_end then [(current_time, slot_end)] else [])
            @ slots_loop is_available dur end_t (current_time + 30))
      else [])"
  by pat_completeness auto
termination
  by (relation "measure (\<lambda>(is_available, dur, end_t, current_time).
                  nat (end_t - dur - current_time + 1))") auto

text \<open>
  \<open>BookingManager.get_available_slots\<close>: one schedule row (\<open>.first()\<close>), the active rows
  of the staff member that start on the date, and the loop.
\<close>

definition staff_schedules :: "db \<Rightarrow> nat \<Rightarrow> int \<Rightarrow> schedule list" where
  "staff_schedules d staff date =
     filter (\<lambda>s. schedule_staff s = staff \<and> schedule_date s = date) (schedules d)"

definition existing_appointments :: "db \<Rightarrow> nat \<Rightarrow> int \<Rightarrow> appointment_service list" where
  "existing_appointments d staff date =
     sort_key start_time
       (filter (\<lambda>r. as_staff r = staff \<and> date_of (start_time r) = date \<and> is_active d r)
               (appointment_services d))"

definition get_available_slots :: "db \<Rightarrow> nat \<Rightarrow> int \<Rightarrow> service \<Rightarrow> (datetime \<times> datetime) list" where
  "get_available_slots d staff date sv =
     (case first (staff_schedules d staff date) of
        None \<Rightarrow> []
      | Some sched \<Rightarrow>
          slots_loop
            (\<lambda>current_time slot_end.
               \<not> list_ex (\<lambda>appt. start_time appt < slot_end \<and> end_time appt > current_time)
                    (existing_appointments d staff date))
            (duration sv)
            (combine date (schedule_end_time sched))
            (combine date (schedule_start_time sched)))"

section \<open>AppointmentViewSet (booking/views.py)\<close>

text \<open>
  \<open>_send_appointment_notifications\<close>: its first statement, before the \<open>try\<close>, is
  \<open>from .utils import send_appointment_notification\<close>, and \<open>utils.py\<close> defines no such
  name, so every call raises \<open>ImportError\<close>. The views call it after their writes, and
  the views are not atomic: the writes stay and the request fails.
\<close>

definition view_send_appointment_notifications :: "appointment \<Rightarrow> error option" where
  "view_send_appointment_notifications a = Some IMPORT_ERROR"

text \<open>
  \<open>cancel\<close>: refused for a completed or cancelled appointment; otherwise the status
  CANCELLED is saved (the reason is only logged) and the notification is called.
\<close>

definition view_cancel :: "db \<Rightarrow> appointment \<Rightarrow> db \<times> (error + appointment)" where
  "view_cancel d a =
     (if status a = COMPLETED \<or> status a = CANCELLED then (d, Inl TERMINAL_STATE)
      else (let (d', a') = Appointment_save d (a\<lparr>status := CANCELLED\<rparr>) in
            (case view_send_appointment_notifications a' of
               Some e \<Rightarrow> (d', Inl e)
             | None \<Rightarrow> (d', Inr a'))))"

text \<open>\<open>_is_staff_available\<close>, \<open>_calculate_available_slots\<close> and \<open>available_slots\<close>.\<close>

definition view_is_staff_available :: "db \<Rightarrow> nat \<Rightarrow> datetime \<Rightarrow> timedelta \<Rightarrow> bool" where
  "view_is_staff_available d staff start_t dur =
     (let end_t = start_t + dur in
      if covering_schedules d staff start_t end_t = [] then False
      else active_overlapping d staff start_t end_t = [])"

definition view_calculate_available_slots ::
  "db \<Rightarrow> nat \<Rightarrow> service \<Rightarrow> schedule \<Rightarrow> (datetime \<times> datetime) list" where
  "view_calculate_available_slots d staff sv sched =
     slots_loop (\<lambda>current_time slot_end. view_is_staff_available d staff current_time (duration sv))
       (duration sv)
       (combine (schedule_date sched) (schedule_end_time sched))
       (combine (schedule_date sched) (schedule_start_time sched))"

definition view_available_slots :: "db \<Rightarrow> nat \<Rightarrow> service \<Rightarrow> int \<Rightarrow> (datetime \<times> datetime) list" where
  "view_available_slots d staff sv date =
     (case first (staff_schedules d staff date) of
        None \<Rightarrow> []
      | Some sched \<Rightarrow> view_calculate_available_slots d staff sv sched)"

text \<open>
  \<open>reschedule\<close> of the view set. \<open>AppointmentRescheduleSerializer.validate\<close>
  (serializers.py) looks up the appointment named in the request data, refuses a
  completed or cancelled one and a start in the past. The view then asks
  \<open>_is_staff_available\<close> for every service row of the appointment at the new start
  (nothing is excluded), shifts every row by \<open>new_start_time - services[0].start_time\<close>,
  saving each in turn (a row that \<open>clean\<close> rejects leaves the rows saved before it),
  saves the appointment and calls the notification.
\<close>

definition AppointmentRescheduleSerializer_validate ::
  "datetime \<Rightarrow> db \<Rightarrow> nat \<Rightarrow> datetime \<Rightarrow> error option" where
  "AppointmentRescheduleSerializer_validate now d aid new_start_time =
     (case find (\<lambda>a. appointment_id a = aid) (appointments d) of
        None \<Rightarrow> Some NOT_FOUND
      | Some a \<Rightarrow>
          if status a = COMPLETED \<or> status a = CANCELLED then Some TERMINAL_STATE
          else if new_start_time < now then Some PAST_DATE
          else None)"

fun shift_services ::
  "datetime \<Rightarrow> db \<Rightarrow> timedelta \<Rightarrow> appointment_service list \<Rightarrow> db \<times> error option" where
  "shift_services now d time_difference [] = (d, None)"
| "shift_services now d time_difference (sv # rest) =
     (case AppointmentService_save now d
             (sv\<lparr>start_time := start_time sv + time_difference,
                 end_time := end_time sv + time_difference\<rparr>) of
        Inl e \<Rightarrow> (d, Some e)
      | Inr d' \<Rightarrow> shift_services now d' time_difference rest)"

definition view_reschedule ::
  "datetime \<Rightarrow> db \<Rightarrow> appointment \<Rightarrow> nat \<Rightarrow> datetime \<Rightarrow> db \<times> (error + appointment)" where
  "view_reschedule now d a request_appointment_id new_start_time =
     (case AppointmentRescheduleSerializer_validate now d request_appointment_id new_start_time of
        Some e \<Rightarrow> (d, Inl e)
      | None \<Rightarrow>
          if new_start_time < now then (d, Inl PAST_DATE)
          else
            (let services = services_of d (appointment_id a) in
             if list_ex (\<lambda>sv. \<not> view_is_staff_available d (as_staff sv) new_start_time
                                    (duration (as_service sv))) services
             then (d, Inl STAFF_UNAVAILABLE)
             else
               (case services of
                  [] \<Rightarrow> (d, Inl INDEX_ERROR)
                | s0 # rest \<Rightarrow>
                    (let time_difference = new_start_time - start_time s0 in
                     (case shift_services now d time_difference services of
                        (d1, Some e) \<Rightarrow> (d1, Inl e)
                      | (d1, None) \<Rightarrow>
                          (let (d2, a') = Appointment_save d1 a in
                           (case view_send_appointment_notifications a' of
                              Some e \<Rightarrow> (d2, Inl e)
                            | None \<Rightarrow> (d2, Inr a'))))))))"

section \<open>booking/utils.py\<close>

text \<open>
  \<open>utils.get_available_slots(business, service, date, staff=None)\<close>: every schedule row of
  the business on the date (of active staff, of one staff member when given) is walked,
  and the slots are sorted by start time, then staff name. The two columns of the user
  table that it reads, \<open>is_active\<close> and the display name
  (\<open>get_full_name() or email\<close>), are the first two arguments. A slot carries its start,
  its end, the staff member and the staff name. The end of the day,
  \<open>datetime.max.time()\<close>, is minute 1439. The function's \<open>except Exception: return []\<close>
  has no counterpart: nothing in the modelled body raises.
\<close>

definition appointment_business_of :: "db \<Rightarrow> nat \<Rightarrow> nat option" where
  "appointment_business_of d aid =
     map_option appointment_business (find (\<lambda>a. appointment_id a = aid) (appointments d))"

definition utils_get_available_slots ::
  "(nat \<Rightarrow> bool) \<Rightarrow> (nat \<Rightarrow> string) \<Rightarrow> db \<Rightarrow> nat \<Rightarrow> service \<Rightarrow> int \<Rightarrow> nat option
     \<Rightarrow> (datetime \<times> datetime \<times> nat \<times> string) list" where
  "utils_get_available_slots staff_is_active staff_name d business sv date staff =
     (let start_datetime = combine date 0;
          end_datetime = combine date 1439;
          scheds = filter (\<lambda>s. schedule_business s = business \<and> schedule_date s = date
                               \<and> staff_is_active (schedule_staff s)) (schedules d);
          scheds' = (case staff of None \<Rightarrow> scheds
                     | Some st \<Rightarrow> filter (\<lambda>s. schedule_staff s = st) scheds);
          existing = filter (\<lambda>r. appointment_business_of d (as_appointment r) = Some business
                                 \<and> start_time r \<ge> start_datetime \<and> end_time r \<le> end_datetime
                                 \<and> is_active d r) (appointment_services d);
          existing' = (case staff of None \<Rightarrow> existing
                       | Some st \<Rightarrow> filter (\<lambda>r. as_staff r = st) existing);
          available_slots =
            concat (map (\<lambda>sched.
                      map (\<lambda>(s, e). (s, e, schedule_staff sched, staff_name (schedule_staff sched)))
                        (slots_loop
                           (\<lambda>current_time slot_end_time.
                              \<not> list_ex (\<lambda>r. as_staff r = schedule_staff sched
                                               \<and> start_time r < slot_end_time
                                               \<and> end_time r > current_time) existing')
                           (duration sv)
                           (combine date (schedule_end_time sched))
                           (combine date (schedule_start_time sched))))
                    scheds')
      in sort_key (\<lambda>(s, e, st, nm). (s, nm)) available_slots)"

section \<open>booking/serializers.py\<close>

text \<open>
  \<open>AppointmentSerializer.create\<close>: the appointment is created, then one row per entry of
  the validated service data (service, staff, start, end, price), and the total price is
  recomputed and saved after the rows exist. The view is not atomic: a row that \<open>clean\<close>
  rejects leaves the writes before it.
\<close>

fun create_service_rows ::
  "datetime \<Rightarrow> db \<Rightarrow> nat \<Rightarrow> (service \<times> nat \<times> datetime \<times> datetime \<times> int) list \<Rightarrow> db \<times> error option" where
  "create_service_rows now d aid [] = (d, None)"
| "create_service_rows now d aid ((sv, staff, start_t, end_t, p) # rest) =
     (case AppointmentService_create now d aid sv staff start_t end_t p of
        Inl e \<Rightarrow> (d, Some e)
      | Inr d' \<Rightarrow> create_service_rows now d' aid rest)"

definition AppointmentSerializer_create ::
  "datetime \<Rightarrow> db \<Rightarrow> nat \<Rightarrow> string \<Rightarrow> string \<Rightarrow> string option
     \<Rightarrow> (service \<times> nat \<times> datetime \<times> datetime \<times> int) list \<Rightarrow> db \<times> (error + appointment)" where
  "AppointmentSerializer_create now d business cname cphone nts services_data =
     (let (d1, a) = Appointment_create d business cname cphone PENDING nts in
      (case create_service_rows now d1 (appointment_id a) services_data of
         (d2, Some e) \<Rightarrow> (d2, Inl e)
       | (d2, None) \<Rightarrow> (let (d3, a') = Appointment_save d2 a in (d3, Inr a'))))"

section \<open>Properties and states\<close>

text \<open>Two half-open intervals \<open>[a, b)\<close> and \<open>[c, d)\<close> overlap iff \<open>a < d\<close> and \<open>c < b\<close>.\<close>

definition overlaps :: "appointment_service \<Rightarrow> appointment_service \<Rightarrow> bool" where
  "overlaps r1 r2 = (start_time r1 < end_time r2 \<and> start_time r2 < end_time r1)"

text \<open>
  No double-booking: no two distinct rows of one staff member, both under an active
  appointment, overlap.
\<close>

definition no_double_booking :: "db \<Rightarrow> bool" where
  "no_double_booking d =
     (\<forall>r1 \<in> set (appointment_services d). \<forall>r2 \<in> set (appointment_services d).
        r1 \<noteq> r2 \<and> as_staff r1 = as_staff r2 \<and> is_active d r1 \<and> is_active d r2
          \<longrightarrow> \<not> overlaps r1 r2)"

text \<open>
  The invariant that the save hook of \<open>AppointmentService\<close> maintains: the keys of the
  rows are distinct and below the next key, and no two rows of one staff member overlap,
  whatever the status of their appointments.
\<close>

definition ledger_inv :: "db \<Rightarrow> bool" where
  "ledger_inv d =
     (distinct (map as_id (appointment_services d))
      \<and> (\<forall>r \<in> set (appointment_services d). as_id r < next_as_id d)
      \<and> (\<forall>r1 \<in> set (appointment_services d). \<forall>r2 \<in> set (appointment_services d).
            as_id r1 \<noteq> as_id r2 \<and> as_staff r1 = as_staff r2 \<longrightarrow> \<not> overlaps r1 r2))"

text \<open>Price consistency of one appointment of the database.\<close>

definition price_consistent :: "db \<Rightarrow> appointment \<Rightarrow> bool" where
  "price_consistent d a = (total_price a = calculate_total_price d (appointment_id a))"

text \<open>
  The states of the booking ledger: a database with schedules and no booking, and what
  the operations make of it (a rejected operation returns the database as it was).
\<close>

definition empty_db :: "schedule list \<Rightarrow> db" where
  "empty_db scheds =
     \<lparr>schedules = scheds, appointments = [], appointment_services = [],
      next_appointment_id = 1, next_as_id = 1\<rparr>"

inductive reachable :: "db \<Rightarrow> bool" where
  initial: "reachable (empty_db scheds)"
| schedules_changed: "reachable d \<Longrightarrow> reachable (d\<lparr>schedules := scheds\<rparr>)"
| created:
    "reachable d \<Longrightarrow>
     reachable (fst (create_appointment now d business staff sv start_t cname cphone nts))"
| serializer_created:
    "reachable d \<Longrightarrow>
     reachable (fst (AppointmentSerializer_create now d business cname cphone nts services_data))"
| rescheduled:
    "reachable d \<Longrightarrow> a \<in> set (appointments d) \<Longrightarrow>
     reachable (fst (reschedule_appointment now d a new_start_time staff))"
| status_changed:
    "reachable d \<Longrightarrow> a \<in> set (appointments d) \<Longrightarrow>
     reachable (fst (change_appointment_status d a new_status))"
| cancelled:
    "reachable d \<Longrightarrow> a \<in> set (appointments d) \<Longrightarrow> reachable (fst (view_cancel d a))"


section \<open>Example data\<close>

text \<open>
  Times of day on 2024-06-10 (day 19884 of the epoch), a 30-minute service priced 50.00,
  and a staff member (1) working 09:00 to 12:00 on that date.
\<close>

definition at :: "int \<Rightarrow> int \<Rightarrow> datetime" where
  "at h m = combine 19884 (60 * h + m)"

definition haircut :: service where
  "haircut = \<lparr>service_id = 1, service_name = ''Haircut'', duration = 30, price = 5000\<rparr>"

definition morning :: schedule where
  "morning = \<lparr>schedule_business = 1, schedule_staff = 1, schedule_date = 19884,
              schedule_start_time = 540, schedule_end_time = 720\<rparr>"

definition afternoon :: schedule where
  "afternoon = \<lparr>schedule_business = 1, schedule_staff = 1, schedule_date = 19884,
                schedule_start_time = 840, schedule_end_time = 900\<rparr>"

definition booking :: "nat \<Rightarrow> status \<Rightarrow> int \<Rightarrow> appointment" where
  "booking k st tp =
     \<lparr>appointment_id = k, appointment_business = 1, client_name = ''Ann'',
      client_phone = ''555'', status = st, appointment_notes = None, total_price = tp\<rparr>"

definition row :: "nat \<Rightarrow> nat \<Rightarrow> datetime \<Rightarrow> datetime \<Rightarrow> appointment_service" where
  "row k aid s e =
     \<lparr>as_id = k, as_appointment = aid, as_service = haircut, as_staff = 1,
      start_time = s, end_time = e, as_price = 5000\<rparr>"

text \<open>
  \<open>db_one st tp\<close>: appointment 1 in status \<open>st\<close> with one row, 09:00 to 09:30.
  \<open>db_two\<close>: appointment 1 with two rows of staff member 1, 09:00 to 09:30 and 09:30 to
  10:00. \<open>db_pair\<close>: appointments 1 and 2 of staff member 1, 09:00 to 09:30 and 10:00 to
  10:30. A second staff member (2) works 09:00 to 10:00; \<open>display_name\<close> gives the
  names of the two.
\<close>

definition db_one :: "status \<Rightarrow> int \<Rightarrow> db" where
  "db_one st tp =
     \<lparr>schedules = [morning], appointments = [booking 1 st tp],
      appointment_services = [row 1 1 (at 9 0) (at 9 30)],
      next_appointment_id = 2, next_as_id = 2\<rparr>"

definition db_two :: db where
  "db_two =
     \<lparr>schedules = [morning], appointments = [booking 1 CONFIRMED 10000],
      appointment_services = [row 1 1 (at 9 0) (at 9 30), row 2 1 (at 9 30) (at 10 0)],
      next_appointment_id = 2, next_as_id = 3\<rparr>"

definition db_pair :: db where
  "db_pair =
     \<lparr>schedules = [morning],
      appointments = [booking 1 CONFIRMED 5000, booking 2 PENDING 0],
      appointment_services = [row 1 1 (at 9 0) (at 9 30), row 2 2 (at 10 0) (at 10 30)],
      next_appointment_id = 3, next_as_id = 3\<rparr>"

definition staff_two_morning :: schedule where
  "staff_two_morning =
     \<lparr>schedule_business = 1, schedule_staff = 2, schedule_date = 19884,
      schedule_start_time = 540, schedule_end_time = 600\<rparr>"

definition display_name :: "nat \<Rightarrow> string" where
  "display_name u = (if u = 1 then ''Sam'' else ''Al'')"

section \<open>Auxiliary facts\<close>

lemmas example_defs =
  at_def haircut_def morning_def afternoon_def booking_def row_def db_one_def db_two_def
  db_pair_def staff_two_morning_def display_name_def empty_db_def combine_def date_of_def
  time_of_def

lemmas operation_defs =
  validate_appointment_time_def covering_schedules_def active_overlapping_def
  exclude_appointment_def first_def is_active_def appointment_status_def
  create_appointment_def Appointment_create_def AppointmentService_create_def
  AppointmentService_clean_def AppointmentService_save_def Appointment_save_def
  calculate_total_price_def services_of_def change_appointment_status_def view_cancel_def
  view_send_appointment_notifications_def reschedule_appointment_def Let_def

lemma find_replaced:
  "list_ex (\<lambda>x. k x = i) xs \<Longrightarrow> k a' = i \<Longrightarrow>
     find (\<lambda>x. k x = i) (map (\<lambda>x. if k x = i then a' else x) xs) = Some a'"
  by (induction xs) auto

lemma find_appended:
  "\<not> list_ex (\<lambda>x. k x = i) xs \<Longrightarrow> k a' = i \<Longrightarrow> find (\<lambda>x. k x = i) (xs @ [a']) = Some a'"
  by (induction xs) auto

lemma Appointment_save_result:
  "Appointment_save d a = (d', a') \<Longrightarrow>
     appointment_status d' (appointment_id a) = Some (status a) \<and> status a' = status a
     \<and> appointment_services d' = appointment_services d \<and> schedules d' = schedules d
     \<and> next_as_id d' = next_as_id d
     \<and> total_price a' = calculate_total_price d (appointment_id a)
     \<and> appointment_id a' = appointment_id a"
  by (auto simp: Appointment_save_def Let_def appointment_status_def find_replaced find_appended
      split: if_splits)

subsection \<open>The slot loop\<close>

text \<open>
  The loop is unfolded only where a proof asks for it. Its slots are the candidates
  \<open>c0 + 30 k\<close> that end by \<open>end_t\<close> and pass the availability test, in increasing order.
\<close>

declare slots_loop.simps [simp del]

lemma slots_loop_set:
  "set (slots_loop av dur e c0) =
     {(c, c + dur) | c. (\<exists>k::nat. c = c0 + 30 * int k) \<and> c + dur \<le> e \<and> av c (c + dur)}"
proof (induction av dur e c0 rule: slots_loop.induct)
  case (1 av dur e c0)
  show ?case
  proof (cases "c0 + dur \<le> e")
    case False
    then have "\<And>k::nat. \<not> c0 + 30 * int k + dur \<le> e" by linarith
    with False show ?thesis
      by (subst slots_loop.simps) auto
  next
    case True
    have split: "\<And>c. (\<exists>k::nat. c = c0 + 30 * int k) = (c = c0 \<or> (\<exists>k::nat. c = c0 + 30 + 30 * int k))"
    proof
      fix c
      assume "\<exists>k::nat. c = c0 + 30 * int k"
      then obtain k :: nat where k: "c = c0 + 30 * int k" by blast
      show "c = c0 \<or> (\<exists>k::nat. c = c0 + 30 + 30 * int k)"
      proof (cases k)
        case 0
        with k show ?thesis by simp
      next
        case (Suc j)
        with k have "c = c0 + 30 + 30 * int j" by simp
        then show ?thesis by blast
      qed
    next
      fix c
      assume "c = c0 \<or> (\<exists>k::nat. c = c0 + 30 + 30 * int k)"
      then show "\<exists>k::nat. c = c0 + 30 * int k"
      proof
        assume "c = c0"
        then have "c = c0 + 30 * int 0" by simp
        then show ?thesis by blast
      next
        assume "\<exists>k::nat. c = c0 + 30 + 30 * int k"
        then obtain k :: nat where "c = c0 + 30 + 30 * int k" by blast
        then have "c = c0 + 30 * int (Suc k)" by simp
        then show ?thesis by blast
      qed
    qed
    have ih: "set (slots_loop av dur e (c0 + 30)) =
       {(c, c + dur) | c. (\<exists>k::nat. c = c0 + 30 + 30 * int k) \<and> c + dur \<le> e \<and> av c (c + dur)}"
      using "1.IH" [OF True refl] by simp
    show ?thesis
      using True by (subst slots_loop.simps) (auto simp: Let_def ih split)
  qed
qed

lemma slots_loop_lower: "(s, t) \<in> set (slots_loop av dur e c0) \<Longrightarrow> c0 \<le> s"
  by (auto simp: slots_loop_set)

lemma slots_loop_sorted: "sorted_wrt (<) (map fst (slots_loop av dur e c0))"
proof (induction av dur e c0 rule: slots_loop.induct)
  case (1 av dur e c0)
  show ?case
  proof (cases "c0 + dur \<le> e")
    case False
    then show ?thesis by (subst slots_loop.simps) simp
  next
    case True
    have ih: "sorted_wrt (<) (map fst (slots_loop av dur e (c0 + 30)))"
      using "1.IH" [OF True refl] .
    have "\<forall>p \<in> set (slots_loop av dur e (c0 + 30)). c0 < fst p"
      using slots_loop_lower [of _ _ av dur e "c0 + 30"] by fastforce
    with ih True show ?thesis
      by (subst slots_loop.simps) (auto simp: Let_def)
  qed
qed

lemma slots_loop_cong:
  "(\<And>c. c0 \<le> c \<Longrightarrow> c + dur \<le> e \<Longrightarrow> av1 c (c + dur) = av2 c (c + dur)) \<Longrightarrow>
     slots_loop av1 dur e c0 = slots_loop av2 dur e c0"
proof (induction av1 dur e c0 rule: slots_loop.induct)
  case (1 av1 dur e c0)
  show ?case
  proof (cases "c0 + dur \<le> e")
    case False
    then show ?thesis
      by (simp add: slots_loop.simps [of av1] slots_loop.simps [of av2])
  next
    case True
    have here: "av1 c0 (c0 + dur) = av2 c0 (c0 + dur)"
      using "1.prems" [of c0] True by simp
    have rest: "slots_loop av1 dur e (c0 + 30) = slots_loop av2 dur e (c0 + 30)"
      using "1.IH" [OF True refl] "1.prems" by simp
    show ?thesis
      using True here rest
      by (simp add: slots_loop.simps [of av1 dur e c0] slots_loop.simps [of av2 dur e c0] Let_def)
  qed
qed

lemma get_available_slots_rule:
  assumes "first (staff_schedules d staff date) = Some sched"
  shows "set (get_available_slots d staff date sv) =
     {(c, c + duration sv) | c.
        (\<exists>k::nat. c = combine date (schedule_start_time sched) + 30 * int k)
        \<and> c + duration sv \<le> combine date (schedule_end_time sched)
        \<and> \<not> (\<exists>r \<in> set (appointment_services d).
                as_staff r = staff \<and> date_of (start_time r) = date \<and> is_active d r
                \<and> start_time r < c + duration sv \<and> end_time r > c)}"
  using assms
  by (simp add: get_available_slots_def slots_loop_set existing_appointments_def list_ex_iff)
     blast

lemma get_available_slots_chronological:
  "sorted_wrt (<) (map fst (get_available_slots d staff date sv))"
  by (simp add: get_available_slots_def slots_loop_sorted split: option.splits)

lemma date_of_combine: "0 \<le> t \<Longrightarrow> t < 1440 \<Longrightarrow> date_of (combine date t) = date"
  by (simp add: date_of_def combine_def)

lemma time_of_combine: "0 \<le> t \<Longrightarrow> t < 1440 \<Longrightarrow> time_of (combine date t) = t"
  by (simp add: time_of_def combine_def)

subsection \<open>The ledger invariant\<close>

text \<open>
  Every write of a service row goes through \<open>AppointmentService.clean\<close>, so every
  operation keeps \<open>ledger_inv\<close>, and \<open>ledger_inv\<close> gives \<open>no_double_booking\<close>.
\<close>

lemma ledger_inv_cong:
  "appointment_services d' = appointment_services d \<Longrightarrow> next_as_id d' = next_as_id d \<Longrightarrow>
     ledger_inv d' = ledger_inv d"
  by (simp add: ledger_inv_def)

lemma clean_accepts:
  "AppointmentService_clean now d pk staff s e = None \<Longrightarrow>
     s < e \<and> \<not> s < now
     \<and> (\<forall>r \<in> set (appointment_services d).
           as_staff r = staff \<and> (case pk of None \<Rightarrow> True | Some k \<Rightarrow> as_id r \<noteq> k)
             \<longrightarrow> \<not> (start_time r < e \<and> end_time r > s))"
  by (auto simp: AppointmentService_clean_def Let_def filter_empty_conv split: if_splits)

lemma AppointmentService_create_rows:
  "AppointmentService_create now d aid sv staff s e p = Inr d' \<Longrightarrow>
     AppointmentService_clean now d None staff s e = None
     \<and> d' = d\<lparr>appointment_services := appointment_services d @
                 [\<lparr>as_id = next_as_id d, as_appointment = aid, as_service = sv,
                   as_staff = staff, start_time = s, end_time = e, as_price = p\<rparr>],
               next_as_id := Suc (next_as_id d)\<rparr>"
  by (auto simp: AppointmentService_create_def split: option.splits)

lemma AppointmentService_create_inv:
  assumes inv: "ledger_inv d"
    and cr: "AppointmentService_create now d aid sv staff s e p = Inr d'"
  shows "ledger_inv d'"
proof -
  note c = clean_accepts [OF conjunct1 [OF AppointmentService_create_rows [OF cr]]]
  have free: "\<forall>r \<in> set (appointment_services d). as_staff r = staff \<longrightarrow>
                \<not> (start_time r < e \<and> end_time r > s)"
    using c by simp
  have d': "appointment_services d' = appointment_services d @
                 [\<lparr>as_id = next_as_id d, as_appointment = aid, as_service = sv,
                   as_staff = staff, start_time = s, end_time = e, as_price = p\<rparr>]"
    "next_as_id d' = Suc (next_as_id d)"
    using AppointmentService_create_rows [OF cr] by simp_all
  show ?thesis
    using inv free unfolding ledger_inv_def d' overlaps_def
    by (auto simp: less_Suc_eq)
qed

lemma Appointment_create_rows:
  "Appointment_create d business cname cphone st nts = (d1, a) \<Longrightarrow>
     appointment_services d1 = appointment_services d \<and> next_as_id d1 = next_as_id d
     \<and> schedules d1 = schedules d"
  by (auto simp: Appointment_create_def Let_def)

lemma Appointment_save_rows:
  "Appointment_save d a = (d', a') \<Longrightarrow>
     appointment_services d' = appointment_services d \<and> next_as_id d' = next_as_id d"
  by (auto simp: Appointment_save_def Let_def split: if_splits)

lemma create_appointment_inv:
  assumes inv: "ledger_inv d"
  shows "ledger_inv (fst (create_appointment now d business staff sv start_t cname cphone nts))"
proof -
  obtain d1 a where ac: "Appointment_create d business cname cphone PENDING nts = (d1, a)"
    by (cases "Appointment_create d business cname cphone PENDING nts")
  have inv1: "ledger_inv d1"
    using Appointment_create_rows [OF ac] inv ledger_inv_cong [of d1 d] by simp
  show ?thesis
    using inv inv1 ac AppointmentService_create_inv [OF inv1]
    by (auto simp: create_appointment_def Let_def split: option.splits sum.splits)
qed

lemma create_service_rows_inv:
  "ledger_inv d \<Longrightarrow> ledger_inv (fst (create_service_rows now d aid services_data))"
proof (induction services_data arbitrary: d)
  case Nil
  then show ?case by simp
next
  case (Cons x xs)
  obtain sv staff s e p where x: "x = (sv, staff, s, e, p)"
    by (cases x)
  show ?case
    using Cons AppointmentService_create_inv [of d now aid sv staff s e p]
    by (auto simp: x split: sum.splits)
qed

lemma AppointmentSerializer_create_inv:
  assumes inv: "ledger_inv d"
  shows "ledger_inv (fst (AppointmentSerializer_create now d business cname cphone nts services_data))"
proof -
  obtain d1 a where ac: "Appointment_create d business cname cphone PENDING nts = (d1, a)"
    by (cases "Appointment_create d business cname cphone PENDING nts")
  have inv1: "ledger_inv d1"
    using Appointment_create_rows [OF ac] inv ledger_inv_cong [of d1 d] by simp
  obtain d2 r where cs: "create_service_rows now d1 (appointment_id a) services_data = (d2, r)"
    by (cases "create_service_rows now d1 (appointment_id a) services_data")
  have inv2: "ledger_inv d2"
    using create_service_rows_inv [OF inv1, of now "appointment_id a" services_data] cs by simp
  obtain d3 a' where sv: "Appointment_save d2 a = (d3, a')"
    by (cases "Appointment_save d2 a")
  have inv3: "ledger_inv d3"
    using Appointment_save_rows [OF sv] inv2 ledger_inv_cong [of d3 d2] by simp
  show ?thesis
    using ac cs sv inv2 inv3
    by (auto simp: AppointmentSerializer_create_def split: option.splits)
qed

lemma change_appointment_status_inv:
  assumes inv: "ledger_inv d"
  shows "ledger_inv (fst (change_appointment_status d a new_status))"
proof -
  obtain d1 a1 where s: "Appointment_save d (a\<lparr>status := new_status\<rparr>) = (d1, a1)"
    by (cases "Appointment_save d (a\<lparr>status := new_status\<rparr>)")
  show ?thesis
    using inv s Appointment_save_rows [OF s] ledger_inv_cong [of d1 d]
    by (simp add: change_appointment_status_def)
qed

lemma view_cancel_inv:
  assumes inv: "ledger_inv d"
  shows "ledger_inv (fst (view_cancel d a))"
proof -
  obtain d1 a1 where s: "Appointment_save d (a\<lparr>status := CANCELLED\<rparr>) = (d1, a1)"
    by (cases "Appointment_save d (a\<lparr>status := CANCELLED\<rparr>)")
  show ?thesis
    using inv s Appointment_save_rows [OF s] ledger_inv_cong [of d1 d]
    by (simp add: view_cancel_def view_send_appointment_notifications_def)
qed

lemma first_in_set: "first xs = Some x \<Longrightarrow> x \<in> set xs"
  by (auto simp: first_def split: list.splits)

lemma services_of_first:
  "first (services_of d aid) = Some r \<Longrightarrow>
     r \<in> set (appointment_services d) \<and> as_appointment r = aid"
  using first_in_set [of "services_of d aid" r] by (simp add: services_of_def)

lemma AppointmentService_save_update:
  assumes "r \<in> set (appointment_services d)"
    and "AppointmentService_save now d (r\<lparr>start_time := s, end_time := e\<rparr>) = Inr d'"
  shows "AppointmentService_clean now d (Some (as_id r)) (as_staff r) s e = None
     \<and> d' = d\<lparr>appointment_services :=
                 map (\<lambda>x. if as_id x = as_id r then r\<lparr>start_time := s, end_time := e\<rparr> else x)
                   (appointment_services d)\<rparr>"
proof -
  have "list_ex (\<lambda>x. as_id x = as_id r) (appointment_services d)"
    using assms(1) by (auto simp: list_ex_iff)
  then show ?thesis
    using assms(2) by (auto simp: AppointmentService_save_def split: option.splits)
qed

lemma AppointmentService_save_inv:
  assumes inv: "ledger_inv d"
    and mem: "r \<in> set (appointment_services d)"
    and sv: "AppointmentService_save now d (r\<lparr>start_time := s, end_time := e\<rparr>) = Inr d'"
  shows "ledger_inv d'"
proof -
  let ?r' = "r\<lparr>start_time := s, end_time := e\<rparr>"
  let ?f = "\<lambda>x. if as_id x = as_id r then ?r' else x"
  note u = AppointmentService_save_update [OF mem sv]
  have free: "\<forall>x \<in> set (appointment_services d).
                as_staff x = as_staff r \<and> as_id x \<noteq> as_id r \<longrightarrow> \<not> (start_time x < e \<and> end_time x > s)"
    using clean_accepts [OF conjunct1 [OF u]] by simp
  have rows: "appointment_services d' = map ?f (appointment_services d)"
    and nxt: "next_as_id d' = next_as_id d"
    using u by simp_all
  have ids: "map as_id (map ?f (appointment_services d)) = map as_id (appointment_services d)"
    by (induction "appointment_services d") auto
  have d1: "distinct (map as_id (appointment_services d'))"
    using inv unfolding rows ids by (simp add: ledger_inv_def)
  have d2: "\<forall>x \<in> set (appointment_services d'). as_id x < next_as_id d'"
    using inv unfolding rows nxt by (auto simp: ledger_inv_def)
  have d3: "\<forall>r1 \<in> set (appointment_services d'). \<forall>r2 \<in> set (appointment_services d').
              as_id r1 \<noteq> as_id r2 \<and> as_staff r1 = as_staff r2 \<longrightarrow> \<not> overlaps r1 r2"
  proof (intro ballI impI)
    fix r1 r2
    assume m1: "r1 \<in> set (appointment_services d')" and m2: "r2 \<in> set (appointment_services d')"
      and h: "as_id r1 \<noteq> as_id r2 \<and> as_staff r1 = as_staff r2"
    from m1 obtain x1 where x1: "x1 \<in> set (appointment_services d)" "r1 = ?f x1"
      unfolding rows by auto
    from m2 obtain x2 where x2: "x2 \<in> set (appointment_services d)" "r2 = ?f x2"
      unfolding rows by auto
    have old: "as_id x1 \<noteq> as_id x2 \<and> as_staff x1 = as_staff x2 \<longrightarrow> \<not> overlaps x1 x2"
      using inv x1(1) x2(1) by (simp add: ledger_inv_def)
    show "\<not> overlaps r1 r2"
    proof (cases "as_id x1 = as_id r")
      case True
      then have n2: "as_id x2 \<noteq> as_id r" using h x1(2) x2(2) by (auto split: if_splits)
      then have "r2 = x2" "r1 = ?r'" using x1(2) x2(2) True by simp_all
      then show ?thesis
        using free x2(1) n2 h by (auto simp: overlaps_def)
    next
      case False
      then have r1: "r1 = x1" using x1(2) by simp
      show ?thesis
      proof (cases "as_id x2 = as_id r")
        case True
        then have "r2 = ?r'" using x2(2) by simp
        then show ?thesis
          using free x1(1) False h r1 by (auto simp: overlaps_def)
      next
        case False
        then have "r2 = x2" using x2(2) by simp
        then show ?thesis using old h r1 by simp
      qed
    qed
  qed
  show ?thesis
    using d1 d2 d3 by (simp add: ledger_inv_def)
qed

lemma reschedule_appointment_inv:
  assumes inv: "ledger_inv d"
  shows "ledger_inv (fst (reschedule_appointment now d a new_start_time staff))"
proof (cases "first (services_of d (appointment_id a))")
  case None
  then show ?thesis using inv by (simp add: reschedule_appointment_def)
next
  case (Some r)
  have mem: "r \<in> set (appointment_services d)"
    using services_of_first [OF Some] by simp
  show ?thesis
    using inv Some AppointmentService_save_inv [OF inv mem]
    by (auto simp: reschedule_appointment_def Let_def split: option.splits sum.splits)
qed

lemma empty_db_inv: "ledger_inv (empty_db scheds)"
  by (simp add: ledger_inv_def empty_db_def)

lemma reachable_ledger_inv: "reachable d \<Longrightarrow> ledger_inv d"
proof (induction rule: reachable.induct)
  case (initial scheds)
  show ?case by (rule empty_db_inv)
next
  case (schedules_changed d scheds)
  then show ?case by (simp add: ledger_inv_def)
next
  case (created d now business staff sv start_t cname cphone nts)
  then show ?case by (simp add: create_appointment_inv)
next
  case (serializer_created d now business cname cphone nts services_data)
  then show ?case by (simp add: AppointmentSerializer_create_inv)
next
  case (rescheduled d a now new_start_time staff)
  then show ?case by (simp add: reschedule_appointment_inv)
next
  case (status_changed d a new_status)
  then show ?case by (simp add: change_appointment_status_inv)
next
  case (cancelled d a)
  then show ?case by (simp add: view_cancel_inv)
qed

lemma ledger_inv_no_double_booking: "ledger_inv d \<Longrightarrow> no_double_booking d"
proof -
  assume inv: "ledger_inv d"
  have inj: "inj_on as_id (set (appointment_services d))"
    using inv by (simp add: ledger_inv_def distinct_map)
  show "no_double_booking d"
    unfolding no_double_booking_def
  proof (intro ballI impI)
    fix r1 r2
    assume m: "r1 \<in> set (appointment_services d)" "r2 \<in> set (appointment_services d)"
      and h: "r1 \<noteq> r2 \<and> as_staff r1 = as_staff r2 \<and> is_active d r1 \<and> is_active d r2"
    have "as_id r1 \<noteq> as_id r2"
      using inj m h by (auto dest: inj_onD)
    then show "\<not> overlaps r1 r2"
      using inv m h by (simp add: ledger_inv_def)
  qed
qed

subsection \<open>The example databases are states of the ledger\<close>

lemma serializer_create_on_empty:
  "AppointmentSerializer_create (at 8 0) (empty_db [morning]) 1 ''Ann'' ''555'' None
     [(haircut, 1, at 9 0, at 9 30, 5000), (haircut, 1, at 9 30, at 10 0, 5000)]
   = (db_two\<lparr>appointments := [booking 1 PENDING 10000]\<rparr>, Inr (booking 1 PENDING 10000))"
  by (simp add: example_defs operation_defs AppointmentSerializer_create_def)

lemma confirm_db_two:
  "change_appointment_status (db_two\<lparr>appointments := [booking 1 PENDING 10000]\<rparr>)
     (booking 1 PENDING 10000) CONFIRMED = (db_two, Inr (booking 1 CONFIRMED 10000))"
  by (simp add: example_defs operation_defs)

lemma reachable_db_two: "reachable db_two"
proof -
  have "reachable (fst (AppointmentSerializer_create (at 8 0) (empty_db [morning]) 1 ''Ann'' ''555''
          None [(haircut, 1, at 9 0, at 9 30, 5000), (haircut, 1, at 9 30, at 10 0, 5000)]))"
    by (rule reachable.serializer_created) (rule reachable.initial)
  then have "reachable (db_two\<lparr>appointments := [booking 1 PENDING 10000]\<rparr>)"
    unfolding serializer_create_on_empty fst_conv .
  moreover have "booking 1 PENDING 10000
      \<in> set (appointments (db_two\<lparr>appointments := [booking 1 PENDING 10000]\<rparr>))"
    by simp
  ultimately have "reachable (fst (change_appointment_status
      (db_two\<lparr>appointments := [booking 1 PENDING 10000]\<rparr>) (booking 1 PENDING 10000) CONFIRMED))"
    by (rule reachable.status_changed)
  then show ?thesis
    unfolding confirm_db_two fst_conv .
qed

subsection \<open>Sibling paths\<close>

text \<open>
  Saving an appointment makes its total price consistent, so the serializer's create and
  a status change end price-consistent; \<open>utils.get_available_slots\<close> walks every
  schedule row and sorts by start time, then staff name.
\<close>

lemma calculate_total_price_rows:
  "appointment_services d' = appointment_services d \<Longrightarrow>
     calculate_total_price d' aid = calculate_total_price d aid"
  by (simp add: calculate_total_price_def services_of_def)

lemma Appointment_save_price_consistent:
  "Appointment_save d a = (d', a') \<Longrightarrow> price_consistent d' a'"
  using Appointment_save_result [of d a d' a'] calculate_total_price_rows [of d' d "appointment_id a"]
  by (simp add: price_consistent_def)

lemma AppointmentSerializer_create_price_consistent:
  assumes "AppointmentSerializer_create now d business cname cphone nts services_data = (d', Inr a')"
  shows "price_consistent d' a'"
proof -
  obtain d1 a where ac: "Appointment_create d business cname cphone PENDING nts = (d1, a)"
    by (cases "Appointment_create d business cname cphone PENDING nts")
  obtain d2 r where cs: "create_service_rows now d1 (appointment_id a) services_data = (d2, r)"
    by (cases "create_service_rows now d1 (appointment_id a) services_data")
  obtain d3 a3 where sv: "Appointment_save d2 a = (d3, a3)"
    by (cases "Appointment_save d2 a")
  have "d' = d3 \<and> a' = a3"
    using assms ac cs sv by (auto simp: AppointmentSerializer_create_def split: option.splits)
  then show ?thesis
    using Appointment_save_price_consistent [OF sv] by simp
qed

lemma change_appointment_status_price_consistent:
  assumes "change_appointment_status d a new_status = (d', Inr a')"
  shows "price_consistent d' a'"
proof -
  obtain d1 a1 where s: "Appointment_save d (a\<lparr>status := new_status\<rparr>) = (d1, a1)"
    by (cases "Appointment_save d (a\<lparr>status := new_status\<rparr>)")
  have "d' = d1 \<and> a' = a1"
    using assms s by (auto simp: change_appointment_status_def split: if_splits)
  then show ?thesis
    using Appointment_save_price_consistent [OF s] by simp
qed

lemma utils_get_available_slots_sorted:
  "sorted (map (\<lambda>(s, e, st, nm). (s, nm))
     (utils_get_available_slots staff_is_active staff_name d business sv date staff))"
  by (simp add: utils_get_available_slots_def Let_def)

lemma utils_get_available_slots_walks_every_schedule:
  assumes "sched \<in> set (schedules d)" "schedule_business sched = business"
    "schedule_date sched = date" "staff_is_active (schedule_staff sched)"
    and "(s, e) \<in> set (slots_loop
            (\<lambda>current_time slot_end_time.
               \<not> list_ex (\<lambda>r. as_staff r = schedule_staff sched
                               \<and> start_time r < slot_end_time \<and> end_time r > current_time)
                    (filter (\<lambda>r. appointment_business_of d (as_appointment r) = Some business
                                 \<and> start_time r \<ge> combine date 0 \<and> end_time r \<le> combine date 1439
                                 \<and> is_active d r) (appointment_services d)))
            (duration sv) (combine date (schedule_end_time sched))
            (combine date (schedule_start_time sched)))"
  shows "(s, e, schedule_staff sched, staff_name (schedule_staff sched))
           \<in> set (utils_get_available_slots staff_is_active staff_name d business sv date None)"
  using assms
  by (simp add: utils_get_available_slots_def Let_def) force

lemma utils_aggregates_by_time_then_name:
  "utils_get_available_slots (\<lambda>u. True) display_name
     (empty_db [morning, afternoon, staff_two_morning]) 1 haircut 19884 None
   = [(at 9 0, at 9 30, 2, ''Al''), (at 9 0, at 9 30, 1, ''Sam''),
      (at 9 30, at 10 0, 2, ''Al''), (at 9 30, at 10 0, 1, ''Sam''),
      (at 10 0, at 10 30, 1, ''Sam''), (at 10 30, at 11 0, 1, ''Sam''),
      (at 11 0, at 11 30, 1, ''Sam''), (at 11 30, at 12 0, 1, ''Sam''),
      (at 14 0, at 14 30, 1, ''Sam''), (at 14 30, at 15 0, 1, ''Sam'')]"
  by (simp add: example_defs utils_get_available_slots_def slots_loop.simps Let_def)

subsection \<open>What the manager's reschedule keeps\<close>

text \<open>
  \<open>reschedule_appointment\<close> refuses a completed or cancelled appointment, leaves the
  database as it was whenever it fails, and for an appointment with a single service
  row shifts that row once the validator and the save-time check have passed.
\<close>

lemma reschedule_all_or_nothing:
  "(status a \<in> {COMPLETED, CANCELLED} \<longrightarrow>
      reschedule_appointment now d a new_start staff = (d, Inl TERMINAL_STATE))
   \<and> (\<forall>e. snd (reschedule_appointment now d a new_start staff) = Inl e \<longrightarrow>
          fst (reschedule_appointment now d a new_start staff) = d)
   \<and> (services_of d (appointment_id a) = [r]
        \<and> end_time r = start_time r + duration (as_service r)
        \<and> snd (reschedule_appointment now d a new_start staff) = Inr a' \<longrightarrow>
          status a \<notin> {COMPLETED, CANCELLED} \<and> a' = a
          \<and> validate_appointment_time now d staff new_start (new_start + duration (as_service r))
               (Some (appointment_id a)) = None
          \<and> AppointmentService_clean now d (Some (as_id r)) (as_staff r) new_start
               (new_start + duration (as_service r)) = None
          \<and> fst (reschedule_appointment now d a new_start staff) =
               d\<lparr>appointment_services :=
                   map (\<lambda>x. if as_id x = as_id r
                             then r\<lparr>start_time := start_time r + (new_start - start_time r),
                                    end_time := end_time r + (new_start - start_time r)\<rparr>
                             else x)
                     (appointment_services d)\<rparr>)"
proof -
  have p1: "status a \<in> {COMPLETED, CANCELLED} \<longrightarrow>
      reschedule_appointment now d a new_start staff = (d, Inl TERMINAL_STATE)"
    by (auto simp: reschedule_appointment_def)
  have p2: "\<forall>e. snd (reschedule_appointment now d a new_start staff) = Inl e \<longrightarrow>
          fst (reschedule_appointment now d a new_start staff) = d"
    by (auto simp: reschedule_appointment_def Let_def split: option.splits sum.splits)
  have p3: "services_of d (appointment_id a) = [r]
        \<and> end_time r = start_time r + duration (as_service r)
        \<and> snd (reschedule_appointment now d a new_start staff) = Inr a' \<longrightarrow>
          status a \<notin> {COMPLETED, CANCELLED} \<and> a' = a
          \<and> validate_appointment_time now d staff new_start (new_start + duration (as_service r))
               (Some (appointment_id a)) = None
          \<and> AppointmentService_clean now d (Some (as_id r)) (as_staff r) new_start
               (new_start + duration (as_service r)) = None
          \<and> fst (reschedule_appointment now d a new_start staff) =
               d\<lparr>appointment_services :=
                   map (\<lambda>x. if as_id x = as_id r
                             then r\<lparr>start_time := start_time r + (new_start - start_time r),
                                    end_time := end_time r + (new_start - start_time r)\<rparr>
                             else x)
                     (appointment_services d)\<rparr>"
  proof (intro impI)
    assume h: "services_of d (appointment_id a) = [r]
        \<and> end_time r = start_time r + duration (as_service r)
        \<and> snd (reschedule_appointment now d a new_start staff) = Inr a'"
    then have f: "first (services_of d (appointment_id a)) = Some r"
      by (simp add: first_def)
    have mem: "r \<in> set (appointment_services d)"
      using services_of_first [OF f] by simp
    have st: "status a \<notin> {COMPLETED, CANCELLED}"
      using h by (auto simp: reschedule_appointment_def)
    have va: "validate_appointment_time now d staff new_start (new_start + duration (as_service r))
               (Some (appointment_id a)) = None"
      using h f st by (auto simp: reschedule_appointment_def Let_def split: option.splits)
    obtain d' where sv: "AppointmentService_save now d
        (r\<lparr>start_time := new_start, end_time := new_start + duration (as_service r)\<rparr>) = Inr d'"
      using h f st va
      by (auto simp: reschedule_appointment_def Let_def split: option.splits sum.splits)
    note u = AppointmentService_save_update [OF mem sv]
    have res: "reschedule_appointment now d a new_start staff = (d', Inr a)"
      using f st va sv by (auto simp: reschedule_appointment_def Let_def)
    have sh: "r\<lparr>start_time := start_time r + (new_start - start_time r),
                 end_time := end_time r + (new_start - start_time r)\<rparr>
            = r\<lparr>start_time := new_start, end_time := new_start + duration (as_service r)\<rparr>"
      using h by simp
    show "status a \<notin> {COMPLETED, CANCELLED} \<and> a' = a
          \<and> validate_appointment_time now d staff new_start (new_start + duration (as_service r))
               (Some (appointment_id a)) = None
          \<and> AppointmentService_clean now d (Some (as_id r)) (as_staff r) new_start
               (new_start + duration (as_service r)) = None
          \<and> fst (reschedule_appointment now d a new_start staff) =
               d\<lparr>appointment_services :=
                   map (\<lambda>x. if as_id x = as_id r
                             then r\<lparr>start_time := start_time r + (new_start - start_time r),
                                    end_time := end_time r + (new_start - start_time r)\<rparr>
                             else x)
                     (appointment_services d)\<rparr>"
      unfolding sh using st va u h res by simp
  qed
  show ?thesis
    using p1 p2 p3 by blast
qed

lemma reschedule_all_or_nothing_examples:
  "reschedule_appointment (at 8 0) (db_one COMPLETED 5000) (booking 1 COMPLETED 5000) (at 11 0) 1
     = (db_one COMPLETED 5000, Inl TERMINAL_STATE)
   \<and> reschedule_appointment (at 8 0) db_pair (booking 1 CONFIRMED 5000) (at 10 15) 1
     = (db_pair, Inl DOUBLE_BOOKING)
   \<and> reschedule_appointment (at 8 0) (db_one CONFIRMED 5000) (booking 1 CONFIRMED 5000) (at 11 0) 1
     = ((db_one CONFIRMED 5000)\<lparr>appointment_services := [row 1 1 (at 11 0) (at 11 30)]\<rparr>,
        Inr (booking 1 CONFIRMED 5000))"
proof -
  have e1: "status (booking 1 COMPLETED 5000) \<in> {COMPLETED, CANCELLED}"
    by (simp add: booking_def)
  have e2: "snd (reschedule_appointment (at 8 0) db_pair (booking 1 CONFIRMED 5000) (at 10 15) 1)
      = Inl DOUBLE_BOOKING"
    by (simp add: example_defs operation_defs)
  have e3: "services_of (db_one CONFIRMED 5000) (appointment_id (booking 1 CONFIRMED 5000))
        = [row 1 1 (at 9 0) (at 9 30)]
      \<and> end_time (row 1 1 (at 9 0) (at 9 30))
          = start_time (row 1 1 (at 9 0) (at 9 30)) + duration (as_service (row 1 1 (at 9 0) (at 9 30)))
      \<and> snd (reschedule_appointment (at 8 0) (db_one CONFIRMED 5000) (booking 1 CONFIRMED 5000)
              (at 11 0) 1) = Inr (booking 1 CONFIRMED 5000)"
    by (simp add: example_defs operation_defs)
  have c1: "reschedule_appointment (at 8 0) (db_one COMPLETED 5000) (booking 1 COMPLETED 5000) (at 11 0) 1
     = (db_one COMPLETED 5000, Inl TERMINAL_STATE)"
    using reschedule_all_or_nothing [of "booking 1 COMPLETED 5000" "at 8 0" "db_one COMPLETED 5000"
        "at 11 0" 1] e1 by blast
  have "fst (reschedule_appointment (at 8 0) db_pair (booking 1 CONFIRMED 5000) (at 10 15) 1) = db_pair"
    using reschedule_all_or_nothing [of "booking 1 CONFIRMED 5000" "at 8 0" db_pair "at 10 15" 1]
      e2 by blast
  with e2 have c2: "reschedule_appointment (at 8 0) db_pair (booking 1 CONFIRMED 5000) (at 10 15) 1
     = (db_pair, Inl DOUBLE_BOOKING)"
    by (simp add: prod_eq_iff)
  have "fst (reschedule_appointment (at 8 0) (db_one CONFIRMED 5000) (booking 1 CONFIRMED 5000)
              (at 11 0) 1)
       = (db_one CONFIRMED 5000)\<lparr>appointment_services := [row 1 1 (at 11 0) (at 11 30)]\<rparr>"
    using reschedule_all_or_nothing [of "booking 1 CONFIRMED 5000" "at 8 0" "db_one CONFIRMED 5000"
        "at 11 0" 1 "row 1 1 (at 9 0) (at 9 30)" "booking 1 CONFIRMED 5000"] e3
    by (simp add: example_defs)
  with e3 have c3: "reschedule_appointment (at 8 0) (db_one CONFIRMED 5000) (booking 1 CONFIRMED 5000) (at 11 0) 1
     = ((db_one CONFIRMED 5000)\<lparr>appointment_services := [row 1 1 (at 11 0) (at 11 30)]\<rparr>,
        Inr (booking 1 CONFIRMED 5000))"
    by (simp add: prod_eq_iff)
  show ?thesis
    using c1 c2 c3 by blast
qed

section \<open>The claims\<close>

text \<open>
  C1, as stated, fails in two ways. First, the overlap check is the last of the
  validator's checks: a proposed interval that overlaps an active row of the staff
  member but starts in the past is rejected with PAST\_DATE, not DOUBLE\_BOOKING.
  Second, the exclusion is by appointment, not by row: with 1 excluded, the active row
  with key 2 of appointment 1 overlaps 09:30 to 10:00 and the validator accepts.
\<close>

theorem overlap_not_always_double_booking:
  "row 1 1 (at 9 0) (at 9 30) \<in> set (appointment_services (db_one PENDING 0))
   \<and> as_staff (row 1 1 (at 9 0) (at 9 30)) = 1
   \<and> is_active (db_one PENDING 0) (row 1 1 (at 9 0) (at 9 30))
   \<and> start_time (row 1 1 (at 9 0) (at 9 30)) < at 9 35
   \<and> end_time (row 1 1 (at 9 0) (at 9 30)) > at 9 5
   \<and> validate_appointment_time (at 9 10) (db_one PENDING 0) 1 (at 9 5) (at 9 35) None = Some PAST_DATE
   \<and> create_appointment (at 9 10) (db_one PENDING 0) 1 1 haircut (at 9 5) ''Bob'' ''556'' None
       = (db_one PENDING 0, Inl PAST_DATE)
   \<and> row 2 1 (at 9 30) (at 10 0) \<in> set (appointment_services db_two)
   \<and> as_staff (row 2 1 (at 9 30) (at 10 0)) = 1
   \<and> is_active db_two (row 2 1 (at 9 30) (at 10 0))
   \<and> as_id (row 2 1 (at 9 30) (at 10 0)) \<noteq> 1
   \<and> start_time (row 2 1 (at 9 30) (at 10 0)) < at 10 0
   \<and> end_time (row 2 1 (at 9 30) (at 10 0)) > at 9 30
   \<and> validate_appointment_time (at 8 0) db_two 1 (at 9 30) (at 10 0) (Some 1) = None"
  by (simp add: example_defs operation_defs)

text \<open>
  C1, amended: if a row of the staff member exists whose parent appointment is active,
  whose appointment is not the excluded one, and that overlaps the proposed interval,
  then validation rejects, with DOUBLE\_BOOKING when the start is not in the past and a
  schedule row covers the interval (those two checks come first); hence create rejects
  and writes nothing. Consequently, in every state of the ledger, no two distinct rows
  of one staff member under active appointments overlap.
\<close>

theorem double_booking_rejected:
  "((\<exists>r \<in> set (appointment_services d).
       as_staff r = staff \<and> is_active d r \<and> ex \<noteq> Some (as_appointment r)
       \<and> start_time r < end_t \<and> end_time r > start_t) \<longrightarrow>
      validate_appointment_time now d staff start_t end_t ex \<noteq> None
      \<and> (\<not> start_t < now \<and> covering_schedules d staff start_t end_t \<noteq> [] \<longrightarrow>
           validate_appointment_time now d staff start_t end_t ex = Some DOUBLE_BOOKING))
   \<and> ((\<exists>r \<in> set (appointment_services d).
         as_staff r = staff \<and> is_active d r
         \<and> start_time r < start_t + duration sv \<and> end_time r > start_t) \<longrightarrow>
        (\<exists>e. create_appointment now d business staff sv start_t cname cphone nts = (d, Inl e))
        \<and> (\<not> start_t < now \<and> covering_schedules d staff start_t (start_t + duration sv) \<noteq> [] \<longrightarrow>
             create_appointment now d business staff sv start_t cname cphone nts
               = (d, Inl DOUBLE_BOOKING)))
   \<and> (reachable d \<longrightarrow> no_double_booking d)"
proof -
  have v: "\<And>e x. (\<exists>r \<in> set (appointment_services d).
       as_staff r = staff \<and> is_active d r \<and> x \<noteq> Some (as_appointment r)
       \<and> start_time r < e \<and> end_time r > start_t) \<Longrightarrow>
      exclude_appointment x (active_overlapping d staff start_t e) \<noteq> []"
    by (auto simp: exclude_appointment_def active_overlapping_def filter_empty_conv
        split: option.splits)
  have p1: "(\<exists>r \<in> set (appointment_services d).
       as_staff r = staff \<and> is_active d r \<and> ex \<noteq> Some (as_appointment r)
       \<and> start_time r < end_t \<and> end_time r > start_t) \<longrightarrow>
      validate_appointment_time now d staff start_t end_t ex \<noteq> None
      \<and> (\<not> start_t < now \<and> covering_schedules d staff start_t end_t \<noteq> [] \<longrightarrow>
           validate_appointment_time now d staff start_t end_t ex = Some DOUBLE_BOOKING)"
    using v [of ex end_t]
    by (auto simp: validate_appointment_time_def first_def split: list.splits)
  have p2: "(\<exists>r \<in> set (appointment_services d).
         as_staff r = staff \<and> is_active d r
         \<and> start_time r < start_t + duration sv \<and> end_time r > start_t) \<longrightarrow>
        (\<exists>e. create_appointment now d business staff sv start_t cname cphone nts = (d, Inl e))
        \<and> (\<not> start_t < now \<and> covering_schedules d staff start_t (start_t + duration sv) \<noteq> [] \<longrightarrow>
             create_appointment now d business staff sv start_t cname cphone nts
               = (d, Inl DOUBLE_BOOKING))"
    using v [of None "start_t + duration sv"]
    by (auto simp: create_appointment_def Let_def validate_appointment_time_def first_def
        split: list.splits)
  have p3: "reachable d \<longrightarrow> no_double_booking d"
    by (simp add: reachable_ledger_inv ledger_inv_no_double_booking)
  show ?thesis
    using p1 p2 p3 by blast
qed

theorem double_booking_rejected_witness:
  "validate_appointment_time (at 8 0) db_two 1 (at 9 15) (at 9 45) None = Some DOUBLE_BOOKING
   \<and> create_appointment (at 8 0) db_two 1 1 haircut (at 9 15) ''Bob'' ''556'' None
       = (db_two, Inl DOUBLE_BOOKING)
   \<and> reachable db_two
   \<and> no_double_booking db_two"
proof -
  have r: "row 1 1 (at 9 0) (at 9 30) \<in> set (appointment_services db_two)
      \<and> as_staff (row 1 1 (at 9 0) (at 9 30)) = 1
      \<and> is_active db_two (row 1 1 (at 9 0) (at 9 30))
      \<and> start_time (row 1 1 (at 9 0) (at 9 30)) < at 9 45
      \<and> end_time (row 1 1 (at 9 0) (at 9 30)) > at 9 15"
    by (simp add: example_defs is_active_def appointment_status_def)
  have c: "\<not> at 9 15 < at 8 0 \<and> covering_schedules db_two 1 (at 9 15) (at 9 45) \<noteq> []"
    by (simp add: example_defs covering_schedules_def)
  have h: "duration haircut = 30" "at 9 15 + 30 = at 9 45"
    by (simp_all add: example_defs)
  show ?thesis
    using double_booking_rejected [of db_two 1 None "at 9 45" "at 9 15" "at 8 0" haircut 1
        "''Bob''" "''556''" None] r c h reachable_db_two
    by auto
qed

text \<open>
  C2 (the code departs from the claim). The claim: after a cancel succeeds, a create for
  the same staff member over the same interval passes the overlap check and succeeds.
  On the code: the appointment 09:00 to 09:30 is cancelled (the cancel view has stored
  the status CANCELLED); the validator then accepts
  09:00 to 09:30 for the same staff member (the cancelled row is not active), but
  \<open>create_appointment\<close> is rejected by \<open>AppointmentService.clean\<close>, whose availability query
  has no status filter and still finds the cancelled row.
\<close>

theorem cancelled_slot_stays_blocked:
  "fst (view_cancel (db_one PENDING 0) (booking 1 PENDING 0)) = db_one CANCELLED 5000
   \<and> validate_appointment_time (at 8 0) (db_one CANCELLED 5000) 1 (at 9 0) (at 9 30) None = None
   \<and> create_appointment (at 8 0) (db_one CANCELLED 5000) 1 1 haircut (at 9 0) ''Bob'' ''556'' None
     = (db_one CANCELLED 5000, Inl STAFF_UNAVAILABLE)"
  by (simp add: example_defs operation_defs)




text \<open>
  C4 (the code departs from the claim). The claim: immediately after create with one
  service, the total price equals the snapshotted service price. On the code:
  \<open>create_appointment\<close> saves the appointment before its service row exists and never
  again, so the stored and returned total price is 0 while the row carries the price of
  the service, 50.00.
\<close>

theorem create_appointment_total_price_stale:
  "create_appointment (at 8 0) (empty_db [morning]) 1 1 haircut (at 9 0) ''Ann'' ''555'' None
     = (db_one PENDING 0, Inr (booking 1 PENDING 0))
   \<and> total_price (booking 1 PENDING 0) = 0
   \<and> calculate_total_price (db_one PENDING 0) (appointment_id (booking 1 PENDING 0)) = price haircut
   \<and> price haircut = 5000
   \<and> \<not> price_consistent (db_one PENDING 0) (booking 1 PENDING 0)"
  by (simp add: example_defs operation_defs price_consistent_def)

text \<open>
  C5 (the code departs from the claim). The claim: the shift
  \<open>new_start - first_service.start\<close> is applied to every service row of the appointment.
  On the code: appointment 1 has two rows, 09:00 to 09:30 and 09:30 to 10:00; rescheduled
  to 11:00 (a shift of 120 minutes) by the manager's \<open>reschedule_appointment\<close>, which
  reads and writes \<open>appointment.services.first()\<close> only, the first row moves to 11:00 and
  the second stays at 09:30. The reschedule view, on the same input, shifts both rows
  (to 11:00 and 11:30) before its notification fails.
\<close>

theorem reschedule_moves_first_service_only:
  "reschedule_appointment (at 8 0) db_two (booking 1 CONFIRMED 10000) (at 11 0) 1
     = (db_two\<lparr>appointment_services :=
                 [row 1 1 (at 11 0) (at 11 30), row 2 1 (at 9 30) (at 10 0)]\<rparr>,
        Inr (booking 1 CONFIRMED 10000))
   \<and> services_of db_two 1 = [row 1 1 (at 9 0) (at 9 30), row 2 1 (at 9 30) (at 10 0)]
   \<and> at 11 0 - start_time (row 1 1 (at 9 0) (at 9 30)) = 120
   \<and> start_time (row 2 1 (at 9 30) (at 10 0)) \<noteq> start_time (row 2 1 (at 9 30) (at 10 0)) + 120
   \<and> view_reschedule (at 8 0) db_two (booking 1 CONFIRMED 10000) 1 (at 11 0)
     = (db_two\<lparr>appointment_services :=
                 [row 1 1 (at 11 0) (at 11 30), row 2 1 (at 11 30) (at 12 0)]\<rparr>,
        Inl IMPORT_ERROR)"
  by (simp add: example_defs operation_defs view_reschedule_def
      AppointmentRescheduleSerializer_validate_def view_is_staff_available_def)

text \<open>
  C6, as stated, fails: the validator has no range check. An empty interval inside the
  working hours is accepted, and a reversed interval outside them is rejected by the
  working-hours check.
\<close>

theorem validator_accepts_empty_interval:
  "\<not> at 10 0 < at 8 0 \<and> at 10 0 \<ge> at 10 0
   \<and> validate_appointment_time (at 8 0) (empty_db [morning]) 1 (at 10 0) (at 10 0) None = None
   \<and> at 13 0 \<ge> at 12 30
   \<and> validate_appointment_time (at 8 0) (empty_db [morning]) 1 (at 13 0) (at 12 30) None
       = Some OUTSIDE_HOURS"
  by (simp add: example_defs operation_defs)

text \<open>
  C6, amended: the validator applies its checks in order with the first failure
  winning: past date, then working hours, then overlap; it never answers
  INVALID\_RANGE. An interval with start \<open>\<ge>\<close> end is rejected with INVALID\_RANGE by the
  save hook of the service row, so a create with a non-positive duration fails with the
  validator's rejection if there is one and with INVALID\_RANGE otherwise, and writes
  nothing.
\<close>

theorem validate_appointment_time_order:
  "validate_appointment_time now d staff start_t end_t ex =
      (if start_t < now then Some PAST_DATE
       else if covering_schedules d staff start_t end_t = [] then Some OUTSIDE_HOURS
       else if exclude_appointment ex (active_overlapping d staff start_t end_t) \<noteq> []
       then Some DOUBLE_BOOKING
       else None)
   \<and> validate_appointment_time now d staff start_t end_t ex \<noteq> Some INVALID_RANGE
   \<and> (duration sv \<le> 0 \<longrightarrow>
        create_appointment now d business staff sv start_t cname cphone nts =
          (d, Inl (case validate_appointment_time now d staff start_t (start_t + duration sv) None of
                     Some e \<Rightarrow> e | None \<Rightarrow> INVALID_RANGE)))"
  by (auto simp: validate_appointment_time_def first_def create_appointment_def Let_def
       Appointment_create_def AppointmentService_create_def AppointmentService_clean_def
       split: list.splits option.splits)

theorem validate_appointment_time_order_witness:
  "duration (haircut\<lparr>duration := 0\<rparr>) \<le> 0
   \<and> validate_appointment_time (at 8 0) (empty_db [morning]) 1 (at 10 0) (at 10 0) None = None
   \<and> create_appointment (at 8 0) (empty_db [morning]) 1 1 (haircut\<lparr>duration := 0\<rparr>) (at 10 0)
         ''Ann'' ''555'' None
       = (empty_db [morning], Inl INVALID_RANGE)"
  using validate_appointment_time_order [of "at 8 0" "empty_db [morning]" 1 "at 10 0" "at 10 0" None
     "haircut\<lparr>duration := 0\<rparr>" 1 "''Ann''" "''555''" None]
  by (simp add: example_defs covering_schedules_def active_overlapping_def exclude_appointment_def)

text \<open>
  C7: for a staff member with a single schedule row 09:00 to 12:00 on a date, a
  30-minute service and no active booking, the manager's \<open>get_available_slots\<close> (and the
  view's \<open>available_slots\<close>) give exactly the slots starting 09:00, 09:30, 10:00,
  10:30, 11:00 and 11:30 in this order, and not 12:00; a candidate at cursor \<open>c\<close>, a
  multiple of 30 minutes after 09:00, is emitted iff \<open>c + 30\<close> is at most 12:00 and no
  active row of the staff member overlaps \<open>[c, c + 30)\<close>.
\<close>

theorem nine_to_twelve_slots:
  assumes single: "staff_schedules d staff date = [sched]"
    and from9: "schedule_start_time sched = 540"
    and to12: "schedule_end_time sched = 720"
    and dur: "duration sv = 30"
    and free: "\<forall>r \<in> set (appointment_services d). as_staff r = staff \<longrightarrow> \<not> is_active d r"
  shows "get_available_slots d staff date sv =
           [(combine date 540, combine date 570), (combine date 570, combine date 600),
            (combine date 600, combine date 630), (combine date 630, combine date 660),
            (combine date 660, combine date 690), (combine date 690, combine date 720)]
       \<and> view_available_slots d staff sv date = get_available_slots d staff date sv
       \<and> (combine date 720, combine date 750) \<notin> set (get_available_slots d staff date sv)
       \<and> (\<forall>c. ((c, c + 30) \<in> set (get_available_slots d staff date sv)) =
              ((\<exists>k::nat. c = combine date 540 + 30 * int k)
               \<and> c + 30 \<le> combine date 720
               \<and> \<not> (\<exists>r \<in> set (appointment_services d).
                       as_staff r = staff \<and> is_active d r
                       \<and> start_time r < c + 30 \<and> end_time r > c)))"
proof -
  have fs: "first (staff_schedules d staff date) = Some sched"
    using single by (simp add: first_def)
  have none: "existing_appointments d staff date = []"
    using free by (auto simp: existing_appointments_def filter_empty_conv)
  have six: "get_available_slots d staff date sv =
           [(combine date 540, combine date 570), (combine date 570, combine date 600),
            (combine date 600, combine date 630), (combine date 630, combine date 660),
            (combine date 660, combine date 690), (combine date 690, combine date 720)]"
    using fs none from9 to12 dur
    by (simp add: get_available_slots_def combine_def slots_loop.simps)
  have mem: "sched \<in> set (staff_schedules d staff date)"
    using single by simp
  then have sd: "schedule_staff sched = staff \<and> schedule_date sched = date \<and> sched \<in> set (schedules d)"
    by (simp add: staff_schedules_def)
  have nov: "\<And>s e. active_overlapping d staff s e = []"
    using free by (auto simp: active_overlapping_def filter_empty_conv)
  have av: "\<And>c. date * 1440 + 540 \<le> c \<Longrightarrow> c + 30 \<le> date * 1440 + 720 \<Longrightarrow>
               view_is_staff_available d staff c 30"
  proof -
    fix c :: int
    assume c: "date * 1440 + 540 \<le> c" "c + 30 \<le> date * 1440 + 720"
    define t where "t = c - date * 1440"
    have t: "540 \<le> t" "t \<le> 690" "c = combine date t" "c + 30 = combine date (t + 30)"
      using c by (simp_all add: t_def combine_def)
    have "date_of c = date" "time_of c = t" "time_of (c + 30) = t + 30"
      using t date_of_combine [of t date] time_of_combine [of t date]
        time_of_combine [of "t + 30" date] by simp_all
    then have "sched \<in> set (covering_schedules d staff c (c + 30))"
      using sd from9 to12 t by (simp add: covering_schedules_def)
    then have "covering_schedules d staff c (c + 30) \<noteq> []"
      by auto
    then show "view_is_staff_available d staff c 30"
      using nov by (simp add: view_is_staff_available_def)
  qed
  have "slots_loop (\<lambda>current_time slot_end. view_is_staff_available d staff current_time 30) 30
           (date * 1440 + 720) (date * 1440 + 540)
        = slots_loop (\<lambda>current_time slot_end. True) 30 (date * 1440 + 720) (date * 1440 + 540)"
    by (rule slots_loop_cong) (simp add: av)
  then have view: "view_available_slots d staff sv date = get_available_slots d staff date sv"
    using fs sd from9 to12 dur none
    by (simp add: view_available_slots_def view_calculate_available_slots_def
          get_available_slots_def combine_def)
  have last: "(combine date 720, combine date 750) \<notin> set (get_available_slots d staff date sv)"
    unfolding six by (simp add: combine_def)
  have rule: "\<forall>c. ((c, c + 30) \<in> set (get_available_slots d staff date sv)) =
              ((\<exists>k::nat. c = combine date 540 + 30 * int k)
               \<and> c + 30 \<le> combine date 720
               \<and> \<not> (\<exists>r \<in> set (appointment_services d).
                       as_staff r = staff \<and> is_active d r
                       \<and> start_time r < c + 30 \<and> end_time r > c))"
    using free by (auto simp: get_available_slots_rule [OF fs] from9 to12 dur)
  show ?thesis
    using six view last rule by blast
qed

theorem nine_to_twelve_slots_witness:
  "staff_schedules (empty_db [morning]) 1 19884 = [morning]
   \<and> schedule_start_time morning = 540 \<and> schedule_end_time morning = 720
   \<and> duration haircut = 30
   \<and> get_available_slots (empty_db [morning]) 1 19884 haircut =
     [(at 9 0, at 9 30), (at 9 30, at 10 0), (at 10 0, at 10 30), (at 10 30, at 11 0),
      (at 11 0, at 11 30), (at 11 30, at 12 0)]
   \<and> view_available_slots (empty_db [morning]) 1 haircut 19884 =
     [(at 9 0, at 9 30), (at 9 30, at 10 0), (at 10 0, at 10 30), (at 10 30, at 11 0),
      (at 11 0, at 11 30), (at 11 30, at 12 0)]
   \<and> (at 12 0, at 12 30) \<notin> set (get_available_slots (empty_db [morning]) 1 19884 haircut)"
  using nine_to_twelve_slots [of "empty_db [morning]" 1 19884 morning haircut]
  by (simp add: staff_schedules_def empty_db_def morning_def haircut_def at_def combine_def)

text \<open>
  C8 (the code departs from the claim). The claim: slot generation walks each disjoint
  schedule interval of the staff member, not only one of them. On the code: staff
  member 1 works 09:00 to 12:00 and 14:00 to 15:00; the manager's
  \<open>get_available_slots\<close> and the view's \<open>available_slots\<close> take \<open>.first()\<close> of the schedule
  rows and give the six morning slots only; the 14:00 slot is missing.
  \<open>utils.get_available_slots\<close> walks both rows and gives all eight.
\<close>

theorem manager_walks_first_schedule_only:
  "staff_schedules (empty_db [morning, afternoon]) 1 19884 = [morning, afternoon]
   \<and> get_available_slots (empty_db [morning, afternoon]) 1 19884 haircut =
     [(at 9 0, at 9 30), (at 9 30, at 10 0), (at 10 0, at 10 30), (at 10 30, at 11 0),
      (at 11 0, at 11 30), (at 11 30, at 12 0)]
   \<and> (at 14 0, at 14 30) \<notin> set (get_available_slots (empty_db [morning, afternoon]) 1 19884 haircut)
   \<and> view_available_slots (empty_db [morning, afternoon]) 1 haircut 19884 =
     [(at 9 0, at 9 30), (at 9 30, at 10 0), (at 10 0, at 10 30), (at 10 30, at 11 0),
      (at 11 0, at 11 30), (at 11 30, at 12 0)]
   \<and> map (\<lambda>(s, e, st, nm). (s, e))
        (utils_get_available_slots (\<lambda>u. True) display_name (empty_db [morning, afternoon]) 1
           haircut 19884 (Some 1)) =
     [(at 9 0, at 9 30), (at 9 30, at 10 0), (at 10 0, at 10 30), (at 10 30, at 11 0),
      (at 11 0, at 11 30), (at 11 30, at 12 0), (at 14 0, at 14 30), (at 14 30, at 15 0)]"
  by (simp add: example_defs staff_schedules_def get_available_slots_def first_def
      existing_appointments_def view_available_slots_def view_calculate_available_slots_def
      view_is_staff_available_def covering_schedules_def active_overlapping_def
      utils_get_available_slots_def slots_loop.simps Let_def)

text \<open>
  C9, as stated, fails: a shifted service can conflict with a sibling. Appointment 1 has
  two rows of staff member 1, 09:00 to 09:30 and 09:30 to 10:00. Rescheduled to 09:15,
  the validator accepts 09:15 to 09:45 (the appointment's rows are excluded), and the
  save of the moved row is rejected because it overlaps the sibling row.
\<close>

theorem sibling_still_blocks_reschedule:
  "services_of db_two 1 = [row 1 1 (at 9 0) (at 9 30), row 2 1 (at 9 30) (at 10 0)]
   \<and> validate_appointment_time (at 8 0) db_two 1 (at 9 15) (at 9 45) (Some 1) = None
   \<and> reschedule_appointment (at 8 0) db_two (booking 1 CONFIRMED 10000) (at 9 15) 1
       = (db_two, Inl STAFF_UNAVAILABLE)"
  by (simp add: example_defs operation_defs)

text \<open>
  C9, amended: the validator's exclusion is keyed by the whole appointment: with
  appointment \<open>aid\<close> excluded, the validator answers as if no row of \<open>aid\<close> existed, so it
  reports DOUBLE\_BOOKING only for a row of another appointment. The save-time check of
  the moved row excludes that row only: a sibling row of the same staff member that
  overlaps the new interval rejects the reschedule with STAFF\_UNAVAILABLE.
\<close>

theorem validator_excludes_whole_appointment:
  "(aid \<noteq> 0 \<longrightarrow>
      validate_appointment_time now d staff s e (Some aid) =
      validate_appointment_time now
        (d\<lparr>appointment_services := filter (\<lambda>r. as_appointment r \<noteq> aid) (appointment_services d)\<rparr>)
        staff s e None)
   \<and> (aid \<noteq> 0 \<and> validate_appointment_time now d staff s e (Some aid) = Some DOUBLE_BOOKING \<longrightarrow>
        (\<exists>r \<in> set (appointment_services d).
           as_appointment r \<noteq> aid \<and> as_staff r = staff \<and> is_active d r
           \<and> start_time r < e \<and> end_time r > s))
   \<and> (status a \<notin> {COMPLETED, CANCELLED}
        \<and> first (services_of d (appointment_id a)) = Some r
        \<and> validate_appointment_time now d staff new_start (new_start + duration (as_service r))
             (Some (appointment_id a)) = None
        \<and> 0 < duration (as_service r) \<and> \<not> new_start < now
        \<and> (\<exists>x \<in> set (appointment_services d).
              as_appointment x = appointment_id a \<and> as_id x \<noteq> as_id r \<and> as_staff x = as_staff r
              \<and> start_time x < new_start + duration (as_service r) \<and> end_time x > new_start) \<longrightarrow>
        reschedule_appointment now d a new_start staff = (d, Inl STAFF_UNAVAILABLE))"
proof -
  let ?d' = "d\<lparr>appointment_services := filter (\<lambda>r. as_appointment r \<noteq> aid) (appointment_services d)\<rparr>"
  have act: "\<And>r. is_active ?d' r = is_active d r"
    by (simp add: is_active_def appointment_status_def)
  have ov: "aid \<noteq> 0 \<Longrightarrow>
      exclude_appointment (Some aid) (active_overlapping d staff s e)
        = exclude_appointment None (active_overlapping ?d' staff s e)"
    by (simp add: exclude_appointment_def active_overlapping_def act conj_commute)
  have cs: "covering_schedules ?d' staff s e = covering_schedules d staff s e"
    by (simp add: covering_schedules_def)
  have p1: "aid \<noteq> 0 \<longrightarrow>
      validate_appointment_time now d staff s e (Some aid) =
      validate_appointment_time now ?d' staff s e None"
    using ov cs by (simp add: validate_appointment_time_def)
  have p2: "aid \<noteq> 0 \<and> validate_appointment_time now d staff s e (Some aid) = Some DOUBLE_BOOKING \<longrightarrow>
        (\<exists>r \<in> set (appointment_services d).
           as_appointment r \<noteq> aid \<and> as_staff r = staff \<and> is_active d r
           \<and> start_time r < e \<and> end_time r > s)"
    by (auto simp: validate_appointment_time_def exclude_appointment_def active_overlapping_def
        filter_empty_conv split: if_splits)
  have p3: "status a \<notin> {COMPLETED, CANCELLED}
        \<and> first (services_of d (appointment_id a)) = Some r
        \<and> validate_appointment_time now d staff new_start (new_start + duration (as_service r))
             (Some (appointment_id a)) = None
        \<and> 0 < duration (as_service r) \<and> \<not> new_start < now
        \<and> (\<exists>x \<in> set (appointment_services d).
              as_appointment x = appointment_id a \<and> as_id x \<noteq> as_id r \<and> as_staff x = as_staff r
              \<and> start_time x < new_start + duration (as_service r) \<and> end_time x > new_start) \<longrightarrow>
        reschedule_appointment now d a new_start staff = (d, Inl STAFF_UNAVAILABLE)"
  proof (intro impI)
    assume h: "status a \<notin> {COMPLETED, CANCELLED}
        \<and> first (services_of d (appointment_id a)) = Some r
        \<and> validate_appointment_time now d staff new_start (new_start + duration (as_service r))
             (Some (appointment_id a)) = None
        \<and> 0 < duration (as_service r) \<and> \<not> new_start < now
        \<and> (\<exists>x \<in> set (appointment_services d).
              as_appointment x = appointment_id a \<and> as_id x \<noteq> as_id r \<and> as_staff x = as_staff r
              \<and> start_time x < new_start + duration (as_service r) \<and> end_time x > new_start)"
    then have "filter (\<lambda>x. as_staff x = as_staff r
                  \<and> start_time x < new_start + duration (as_service r) \<and> end_time x > new_start
                  \<and> as_id x \<noteq> as_id r) (appointment_services d) \<noteq> []"
      by (auto simp: filter_empty_conv)
    then have "AppointmentService_clean now d (Some (as_id r)) (as_staff r) new_start
                 (new_start + duration (as_service r)) = Some STAFF_UNAVAILABLE"
      using h by (simp add: AppointmentService_clean_def)
    then show "reschedule_appointment now d a new_start staff = (d, Inl STAFF_UNAVAILABLE)"
      using h by (simp add: reschedule_appointment_def AppointmentService_save_def)
  qed
  show ?thesis
    using p1 p2 p3 by blast
qed

theorem validator_excludes_whole_appointment_witness:
  "validate_appointment_time (at 8 0) db_two 1 (at 9 15) (at 9 45) (Some 1)
     = validate_appointment_time (at 8 0) (db_two\<lparr>appointment_services := []\<rparr>) 1 (at 9 15) (at 9 45) None
   \<and> validate_appointment_time (at 8 0) db_pair 1 (at 10 15) (at 10 45) (Some 1) = Some DOUBLE_BOOKING
   \<and> (\<exists>r \<in> set (appointment_services db_pair).
         as_appointment r \<noteq> 1 \<and> as_staff r = 1 \<and> is_active db_pair r
         \<and> start_time r < at 10 45 \<and> end_time r > at 10 15)
   \<and> reschedule_appointment (at 8 0) db_two (booking 1 CONFIRMED 10000) (at 9 15) 1
       = (db_two, Inl STAFF_UNAVAILABLE)"
proof -
  have w1: "validate_appointment_time (at 8 0) db_two 1 (at 9 15) (at 9 45) (Some 1)
     = validate_appointment_time (at 8 0) (db_two\<lparr>appointment_services := []\<rparr>) 1 (at 9 15) (at 9 45) None"
    using validator_excludes_whole_appointment [of 1 "at 8 0" db_two 1 "at 9 15" "at 9 45"]
    by (simp add: db_two_def row_def)
  have v: "validate_appointment_time (at 8 0) db_pair 1 (at 10 15) (at 10 45) (Some 1) = Some DOUBLE_BOOKING"
    by (simp add: example_defs operation_defs)
  have w2: "\<exists>r \<in> set (appointment_services db_pair).
         as_appointment r \<noteq> 1 \<and> as_staff r = 1 \<and> is_active db_pair r
         \<and> start_time r < at 10 45 \<and> end_time r > at 10 15"
    using validator_excludes_whole_appointment [of 1 "at 8 0" db_pair 1 "at 10 15" "at 10 45"] v
    by simp
  have h: "status (booking 1 CONFIRMED 10000) \<notin> {COMPLETED, CANCELLED}
        \<and> first (services_of db_two (appointment_id (booking 1 CONFIRMED 10000)))
            = Some (row 1 1 (at 9 0) (at 9 30))
        \<and> validate_appointment_time (at 8 0) db_two 1 (at 9 15)
             (at 9 15 + duration (as_service (row 1 1 (at 9 0) (at 9 30))))
             (Some (appointment_id (booking 1 CONFIRMED 10000))) = None
        \<and> 0 < duration (as_service (row 1 1 (at 9 0) (at 9 30))) \<and> \<not> at 9 15 < at 8 0
        \<and> (\<exists>x \<in> set (appointment_services db_two).
              as_appointment x = appointment_id (booking 1 CONFIRMED 10000)
              \<and> as_id x \<noteq> as_id (row 1 1 (at 9 0) (at 9 30))
              \<and> as_staff x = as_staff (row 1 1 (at 9 0) (at 9 30))
              \<and> start_time x < at 9 15 + duration (as_service (row 1 1 (at 9 0) (at 9 30)))
              \<and> end_time x > at 9 15)"
    by (simp add: example_defs operation_defs)
  have w3: "reschedule_appointment (at 8 0) db_two (booking 1 CONFIRMED 10000) (at 9 15) 1
       = (db_two, Inl STAFF_UNAVAILABLE)"
    using validator_excludes_whole_appointment [where a = "booking 1 CONFIRMED 10000"
        and d = db_two and r = "row 1 1 (at 9 0) (at 9 30)" and now = "at 8 0" and staff = 1
        and new_start = "at 9 15"] h
    by blast
  show ?thesis
    using w1 v w2 w3 by blast
qed

text \<open>
  C10: if no schedule row exists for the staff member on the date, the slot generators
  return the empty list (the manager's \<open>get_available_slots\<close>, the view's
  \<open>available_slots\<close>, and \<open>utils.get_available_slots\<close> asked for this staff member).
\<close>

theorem no_schedule_no_slots:
  "\<not> (\<exists>s \<in> set (schedules d). schedule_staff s = staff \<and> schedule_date s = date) \<Longrightarrow>
     get_available_slots d staff date sv = []
     \<and> view_available_slots d staff sv date = []
     \<and> utils_get_available_slots staff_is_active staff_name d business sv date (Some staff) = []"
proof -
  assume h: "\<not> (\<exists>s \<in> set (schedules d). schedule_staff s = staff \<and> schedule_date s = date)"
  then have e: "staff_schedules d staff date = []"
    by (auto simp: staff_schedules_def filter_empty_conv)
  have f: "filter (\<lambda>s. schedule_staff s = staff)
             (filter (\<lambda>s. schedule_business s = business \<and> schedule_date s = date
                          \<and> staff_is_active (schedule_staff s)) (schedules d)) = []"
    using h by (auto simp: filter_empty_conv)
  show ?thesis
    using e f by (simp add: get_available_slots_def view_available_slots_def first_def
        utils_get_available_slots_def)
qed

theorem no_schedule_no_slots_witness:
  "\<not> (\<exists>s \<in> set (schedules (empty_db [morning])). schedule_staff s = 1 \<and> schedule_date s = 19885)
   \<and> get_available_slots (empty_db [morning]) 1 19885 haircut = []
   \<and> view_available_slots (empty_db [morning]) 1 haircut 19885 = []
   \<and> utils_get_available_slots (\<lambda>u. True) (\<lambda>u. ''Sam'') (empty_db [morning]) 1 haircut 19885
        (Some 1) = []"
  using no_schedule_no_slots [of "empty_db [morning]" 1 19885 haircut "\<lambda>u. True" "\<lambda>u. ''Sam''" 1]
  by (simp add: empty_db_def morning_def)

end
